theory Spec2Isabelle
  imports Complex_Main
begin

section \<open>Data model of \<open>src/components/pirate-game.tsx\<close>\<close>

text \<open>
  JavaScript numbers are modelled as \<open>real\<close> where the source computes with fractions
  (positions, speeds, upgrade effect values, lives, weights) and as \<open>int\<close> where the
  source only ever produces integers (score, coins, counters, costs, levels, seeds).
  Every \<open>Math.random()\<close> draw is an explicit argument. Drawing calls, particles and
  clouds have no effect on the state the properties below are about and are left out.
\<close>

datatype obstacle_type = Crab | Barrel | Gap | Parrot | MoonwalkCrab | TreasureChest

datatype effect_type = Speed | Lives | CoinMagnet | StartingLives

datatype challenge_type = Coins | Score | Survival | Enemies

datatype powerup_type = SpeedBoost | CoinMagnetBoost | ExtraLife

datatype projectile_type = Banana

record ShipBoosts =
  speedMultiplier :: real
  extraLives :: real
  coinMagnetRange :: real
  startingLives :: real

record GameState =
  isPlaying :: bool
  isPaused :: bool
  score :: int
  coins :: int
  lives :: real
  gameSpeed :: real
  shipBoosts :: ShipBoosts
  currentCatchphrase :: string
  levelSeed :: int

record Effect =
  effectType :: effect_type
  effectValue :: real

record ShipUpgrade =
  su_id :: string
  su_name :: string
  su_description :: string
  cost :: int
  maxLevel :: int
  currentLevel :: int
  effect :: Effect

record DailyChallenge =
  dc_id :: string
  dc_name :: string
  dc_description :: string
  target :: int
  progress :: int
  reward :: int
  completed :: bool
  ctype :: challenge_type

record OutfitParts =
  hat :: "string option"
  beard :: "string option"
  shirt :: "string option"
  accessory :: "string option"

record PirateOutfit =
  po_id :: string
  po_name :: string
  po_description :: string
  po_cost :: int
  unlocked :: bool
  parts :: OutfitParts

record PlayerProgress =
  totalCoins :: int
  shipUpgrades :: "ShipUpgrade list"
  gamesPlayed :: int
  bestScore :: int
  dailyChallenges :: "DailyChallenge list"
  lastChallengeReset :: string
  pirateOutfits :: "PirateOutfit list"
  selectedOutfit :: string
  totalEnemiesDefeated :: int
  totalSurvivalTime :: int

text \<open>
  Every entity the collision test is applied to has the four fields \<open>x\<close>, \<open>y\<close>,
  \<open>width\<close>, \<open>height\<close>; the entity records extend the record of these four.
\<close>

record rect =
  x :: real
  y :: real
  width :: real
  height :: real

record Player = rect +
  velocityY :: real
  isJumping :: bool
  isSliding :: bool
  groundY :: real

record Projectile = rect +
  pvelocityX :: real
  pvelocityY :: real
  ptype :: projectile_type

record Behavior =
  direction :: "real option"
  speed :: "real option"
  amplitude :: "real option"
  frequency :: "real option"
  bprojectiles :: "Projectile list option"

record Obstacle = rect +
  otype :: obstacle_type
  behavior :: "Behavior option"

record Coin = rect +
  collected :: bool

record PowerUp = rect +
  putype :: powerup_type
  pu_collected :: bool

definition CANVAS_WIDTH :: real where "CANVAS_WIDTH = 800"
definition CANVAS_HEIGHT :: real where "CANVAS_HEIGHT = 400"
definition GRAVITY :: real where "GRAVITY = 0.8"
definition JUMP_FORCE :: real where "JUMP_FORCE = - 15"
definition GAME_SPEED :: real where "GAME_SPEED = 4"

text \<open>\<open>getMobileSpeed\<close>; the result of \<open>isMobile()\<close> is the argument.\<close>

definition getMobileSpeed :: "bool \<Rightarrow> real" where
  "getMobileSpeed mobile = (if mobile then GAME_SPEED * 0.7 else GAME_SPEED)"

section \<open>Ship boosts and the start of a run\<close>

text \<open>The reducer of \<open>calculateShipBoosts\<close> and the left fold over the upgrades.\<close>

definition addBoost :: "ShipUpgrade \<Rightarrow> ShipBoosts \<Rightarrow> ShipBoosts" where
  "addBoost upgrade boosts =
     (let effectValue = real_of_int (currentLevel upgrade) * effectValue (effect upgrade)
      in case effectType (effect upgrade) of
           Speed \<Rightarrow> boosts\<lparr>speedMultiplier := speedMultiplier boosts + effectValue\<rparr>
         | Lives \<Rightarrow> boosts\<lparr>extraLives := extraLives boosts + effectValue\<rparr>
         | CoinMagnet \<Rightarrow> boosts\<lparr>coinMagnetRange := coinMagnetRange boosts + effectValue\<rparr>
         | StartingLives \<Rightarrow> boosts\<lparr>startingLives := startingLives boosts + effectValue\<rparr>)"

definition calculateShipBoosts :: "ShipUpgrade list \<Rightarrow> ShipBoosts" where
  "calculateShipBoosts upgrades =
     fold addBoost upgrades
       \<lparr>speedMultiplier = 1, extraLives = 0, coinMagnetRange = 0, startingLives = 0\<rparr>"

text \<open>The four upgrades of a fresh profile (the initial value of \<open>playerProgress\<close>).\<close>

definition initialUpgrades :: "ShipUpgrade list" where
  "initialUpgrades =
     [\<lparr>su_id = ''hull'', su_name = ''Reinforced Hull'',
       su_description = ''Start with extra lives'', cost = 50, maxLevel = 3,
       currentLevel = 0, effect = \<lparr>effectType = StartingLives, effectValue = 1\<rparr>\<rparr>,
      \<lparr>su_id = ''sails'', su_name = ''Swift Sails'',
       su_description = ''Increase movement speed'', cost = 75, maxLevel = 3,
       currentLevel = 0, effect = \<lparr>effectType = Speed, effectValue = 0.2\<rparr>\<rparr>,
      \<lparr>su_id = ''compass'', su_name = ''Magnetic Compass'',
       su_description = ''Attract coins from further away'', cost = 100, maxLevel = 3,
       currentLevel = 0, effect = \<lparr>effectType = CoinMagnet, effectValue = 20\<rparr>\<rparr>,
      \<lparr>su_id = ''crew'', su_name = ''Lucky Crew'',
       su_description = ''Extra life during gameplay'', cost = 150, maxLevel = 2,
       currentLevel = 0, effect = \<lparr>effectType = Lives, effectValue = 1\<rparr>\<rparr>]"

text \<open>
  The session: the React state cells that \<open>startGame\<close> and the game loop write.
  \<open>gameOverTimer\<close> holds the handle of the pending grace timer, if any.
\<close>

record Session =
  gameState :: GameState
  player :: Player
  obstacles :: "Obstacle list"
  coinList :: "Coin list"
  powerUps :: "PowerUp list"
  projectiles :: "Projectile list"
  backgroundX :: real
  showShipUpgrades :: bool
  gameOverTimer :: "nat option"

definition initialPlayer :: Player where
  "initialPlayer =
     \<lparr>x = 100, y = 300, width = 32, height = 32,
      velocityY = 0, isJumping = False, isSliding = False, groundY = 300\<rparr>"

text \<open>
  \<open>startGame\<close>. Arguments: the profile of the current render, the result of
  \<open>isMobile()\<close>, the draw for the level seed, the catchphrase that
  \<open>generateAICatchphrase()\<close> returned, and the session that is overwritten.
\<close>

definition startGame :: "PlayerProgress \<Rightarrow> bool \<Rightarrow> real \<Rightarrow> string \<Rightarrow> Session \<Rightarrow> Session" where
  "startGame playerProgress mobile rnd phrase s =
     (let boosts = calculateShipBoosts (shipUpgrades playerProgress);
          newLevelSeed = \<lfloor>rnd * 10000\<rfloor>;
          baseSpeed = getMobileSpeed mobile
      in s\<lparr>gameState :=
             \<lparr>isPlaying = True, isPaused = False, score = 0, coins = 0,
              lives = max 1 (3 + startingLives boosts + extraLives boosts),
              gameSpeed = baseSpeed * speedMultiplier boosts,
              shipBoosts = boosts, currentCatchphrase = phrase,
              levelSeed = newLevelSeed\<rparr>,
           player := initialPlayer,
           obstacles := [], coinList := [], powerUps := [], projectiles := [],
           backgroundX := 0, showShipUpgrades := False,
           gameOverTimer := None\<rparr>)"

text \<open>
  The session before the first run: the initial values of the state cells. The lives
  shown before the first run count the starting-lives boost only.
\<close>

definition initialSession :: "PlayerProgress \<Rightarrow> bool \<Rightarrow> real \<Rightarrow> string \<Rightarrow> Session" where
  "initialSession playerProgress mobile rnd phrase =
     (let boosts = calculateShipBoosts (shipUpgrades playerProgress);
          baseSpeed = getMobileSpeed mobile
      in \<lparr>gameState =
             \<lparr>isPlaying = False, isPaused = False, score = 0, coins = 0,
              lives = max 1 (3 + startingLives boosts),
              gameSpeed = baseSpeed * speedMultiplier boosts,
              shipBoosts = boosts, currentCatchphrase = phrase,
              levelSeed = \<lfloor>rnd * 10000\<rfloor>\<rparr>,
           player = initialPlayer,
           obstacles = [], coinList = [], powerUps = [], projectiles = [],
           backgroundX = 0, showShipUpgrades = False, gameOverTimer = None\<rparr>)"

section \<open>Controls\<close>

text \<open>
  \<open>jump\<close> and \<open>slide\<close>. The guard reads the game state and the player of the
  current render; the update is applied to the player cell \<open>prev\<close>.
\<close>

definition jump :: "GameState \<Rightarrow> Player \<Rightarrow> Player \<Rightarrow> Player" where
  "jump gs pl prev =
     (if \<not> isJumping pl \<and> isPlaying gs
      then prev\<lparr>velocityY := JUMP_FORCE, isJumping := True\<rparr>
      else prev)"

definition slide :: "GameState \<Rightarrow> Player \<Rightarrow> Player \<Rightarrow> Player" where
  "slide gs pl prev =
     (if isPlaying gs \<and> \<not> isSliding pl
      then prev\<lparr>isSliding := True, height := 16, y := groundY prev + 16\<rparr>
      else prev)"

text \<open>The callback that \<open>slide\<close> schedules 500 ms later.\<close>

definition slideRevert :: "Player \<Rightarrow> Player" where
  "slideRevert prev = prev\<lparr>isSliding := False, height := 32, y := groundY prev\<rparr>"

section \<open>Collision resolution\<close>

definition checkCollision :: "'a rect_scheme \<Rightarrow> 'b rect_scheme \<Rightarrow> bool" where
  "checkCollision rect1 rect2 \<longleftrightarrow>
     x rect1 < x rect2 + width rect2 \<and>
     x rect1 + width rect1 > x rect2 \<and>
     y rect1 < y rect2 + height rect2 \<and>
     y rect1 + height rect1 > y rect2"

text \<open>
  The game-state update that one obstacle of \<open>obstacles.forEach\<close> queues
  (none when no branch applies).
\<close>

definition obstacleCollision :: "Player \<Rightarrow> Obstacle \<Rightarrow> GameState \<Rightarrow> GameState" where
  "obstacleCollision pl obstacle prev =
     (if checkCollision pl obstacle then
        (if otype obstacle = Gap \<and> y pl + height pl \<ge> y obstacle
         then prev\<lparr>lives := max 1 (lives prev - 1)\<rparr>
         else if otype obstacle = TreasureChest
         then prev\<lparr>coins := coins prev + 5, score := score prev + 50\<rparr>
         else if otype obstacle \<noteq> Gap
         then prev\<lparr>lives := max 1 (lives prev - 1)\<rparr>
         else prev)
      else prev)"

definition projectileCollision :: "Player \<Rightarrow> Projectile \<Rightarrow> GameState \<Rightarrow> GameState" where
  "projectileCollision pl projectile prev =
     (if checkCollision pl projectile
      then prev\<lparr>lives := max 1 (lives prev - 1)\<rparr>
      else prev)"

text \<open>
  The two \<open>forEach\<close> passes of a frame over the obstacles and projectiles of the
  current render: the queued updates are applied to the game state in order.
\<close>

definition gameLoop_collisions ::
  "Player \<Rightarrow> Obstacle list \<Rightarrow> Projectile list \<Rightarrow> GameState \<Rightarrow> GameState" where
  "gameLoop_collisions pl obs projs prev =
     fold (projectileCollision pl) projs (fold (obstacleCollision pl) obs prev)"

text \<open>The game-state update queued for one power-up in the pickup pass.\<close>

definition powerUpPickup :: "Player \<Rightarrow> PowerUp \<Rightarrow> GameState \<Rightarrow> GameState" where
  "powerUpPickup pl powerUp prevState =
     (if \<not> pu_collected powerUp \<and> checkCollision pl powerUp then
        (case putype powerUp of
           SpeedBoost \<Rightarrow> prevState\<lparr>score := score prevState + 25\<rparr>
         | CoinMagnetBoost \<Rightarrow> prevState\<lparr>score := score prevState + 25\<rparr>
         | ExtraLife \<Rightarrow>
             prevState\<lparr>lives := min (lives prevState + 1) 5, score := score prevState + 50\<rparr>)
      else prevState)"


text \<open>The game-state update queued for one coin in the collection pass.\<close>

definition coinPickup :: "Player \<Rightarrow> Coin \<Rightarrow> GameState \<Rightarrow> GameState" where
  "coinPickup pl coin prevState =
     (if \<not> collected coin \<and> checkCollision pl coin
      then prevState\<lparr>coins := coins prevState + 1, score := score prevState + 10\<rparr>
      else prevState)"

section \<open>Coin magnet\<close>

text \<open>The local \<open>distance\<close> of \<open>checkCoinMagnet\<close>: between the two centres.\<close>

definition magnetDistance :: "Player \<Rightarrow> Coin \<Rightarrow> real" where
  "magnetDistance pl coin =
     sqrt ((x pl + width pl / 2 - (x coin + width coin / 2))\<^sup>2 +
           (y pl + height pl / 2 - (y coin + height coin / 2))\<^sup>2)"

definition checkCoinMagnet :: "GameState \<Rightarrow> Player \<Rightarrow> Coin \<Rightarrow> real \<times> real" where
  "checkCoinMagnet gs pl coin =
     (let magnetRange = 50 + coinMagnetRange (shipBoosts gs);
          distance = magnetDistance pl coin
      in if distance < magnetRange \<and> distance > 20 then
           (let pullStrength = 0.3;
                dx = x pl + width pl / 2 - (x coin + width coin / 2);
                dy = y pl + height pl / 2 - (y coin + height coin / 2)
            in (x coin + dx * pullStrength * 0.1, y coin + dy * pullStrength * 0.1))
         else (x coin, y coin))"

text \<open>The per-coin map of the first \<open>setCoins\<close> of a frame: magnet, then scroll.\<close>

definition moveCoin :: "GameState \<Rightarrow> Player \<Rightarrow> Coin \<Rightarrow> Coin" where
  "moveCoin gs pl coin =
     (let magnetPos = checkCoinMagnet gs pl coin
      in coin\<lparr>x := fst magnetPos - gameSpeed gs, y := snd magnetPos\<rparr>)"

definition generateCoin :: "real \<Rightarrow> real \<Rightarrow> real \<Rightarrow> Coin" where
  "generateCoin canvasWidth rndX rndY =
     \<lparr>x = canvasWidth + rndX * 300, y = 200 + rndY * 100, width = 16, height = 16,
      collected = False\<rparr>"

text \<open>
  The first \<open>setCoins\<close> of a frame; \<open>rndSpawn\<close> is the spawn draw, \<open>rndX\<close> and
  \<open>rndY\<close> the draws of \<open>generateCoin\<close>.
\<close>

definition updateCoins ::
  "GameState \<Rightarrow> Player \<Rightarrow> real \<Rightarrow> real \<Rightarrow> real \<Rightarrow> real \<Rightarrow> Coin list \<Rightarrow> Coin list" where
  "updateCoins gs pl canvasWidth rndSpawn rndX rndY prev =
     (let updated = filter (\<lambda>coin. x coin > - width coin \<and> \<not> collected coin)
                      (map (moveCoin gs pl) prev)
      in if rndSpawn < 0.02 then updated @ [generateCoin canvasWidth rndX rndY]
         else updated)"

section \<open>Procedural patterns and the weighted obstacle selector\<close>

text \<open>
  A weights object is a JavaScript object whose keys are the obstacle type names, in
  insertion order. \<open>keyName\<close> gives the key string, whose length the generator uses.
  Objects are mutable and shared by reference, so the weights objects live in a store:
  \<open>heap\<close> maps an address to the object's entries and \<open>nextAddr\<close> is the next unused
  address.
\<close>

fun keyName :: "obstacle_type \<Rightarrow> string" where
  "keyName Crab = ''crab''"
| "keyName Barrel = ''barrel''"
| "keyName Gap = ''gap''"
| "keyName Parrot = ''parrot''"
| "keyName MoonwalkCrab = ''moonwalk-crab''"
| "keyName TreasureChest = ''treasure-chest''"

type_synonym weights_object = "(obstacle_type \<times> real) list"

record Store =
  heap :: "nat \<Rightarrow> weights_object"
  nextAddr :: nat

record LevelPattern =
  pattern_name :: string
  weights :: nat

definition LEVEL_PATTERNS :: "LevelPattern list" where
  "LEVEL_PATTERNS =
     [\<lparr>pattern_name = ''Crab Invasion'', weights = 0\<rparr>,
      \<lparr>pattern_name = ''Parrot Paradise'', weights = 1\<rparr>,
      \<lparr>pattern_name = ''Barrel Bonanza'', weights = 2\<rparr>,
      \<lparr>pattern_name = ''Treasure Hunt'', weights = 3\<rparr>,
      \<lparr>pattern_name = ''Moonwalk Madness'', weights = 4\<rparr>,
      \<lparr>pattern_name = ''Gap Gauntlet'', weights = 5\<rparr>]"

text \<open>The store when the module has been loaded: the six literal weights objects.\<close>

definition initialStore :: Store where
  "initialStore =
     \<lparr>heap = (\<lambda>_. [])
        (0 := [(Crab, 0.4), (MoonwalkCrab, 0.3), (Barrel, 0.1), (Gap, 0.1),
               (Parrot, 0.05), (TreasureChest, 0.05)],
         1 := [(Parrot, 0.4), (Barrel, 0.2), (Crab, 0.2), (Gap, 0.1),
               (MoonwalkCrab, 0.05), (TreasureChest, 0.05)],
         2 := [(Barrel, 0.4), (Gap, 0.3), (Crab, 0.15), (Parrot, 0.1),
               (MoonwalkCrab, 0.03), (TreasureChest, 0.02)],
         3 := [(TreasureChest, 0.3), (Crab, 0.25), (Barrel, 0.2), (Gap, 0.15),
               (Parrot, 0.05), (MoonwalkCrab, 0.05)],
         4 := [(MoonwalkCrab, 0.4), (Crab, 0.2), (Parrot, 0.2), (Barrel, 0.1),
               (Gap, 0.05), (TreasureChest, 0.05)],
         5 := [(Gap, 0.4), (Barrel, 0.3), (Crab, 0.15), (Parrot, 0.1),
               (MoonwalkCrab, 0.03), (TreasureChest, 0.02)]),
      nextAddr = 6\<rparr>"

datatype error = TypeError

text \<open>
  JavaScript's \<open>%\<close>: the remainder has the sign of the dividend. \<open>jsRem\<close> is the
  operator on integers, \<open>jsFmod\<close> on fractions.
\<close>

definition jsRem :: "int \<Rightarrow> int \<Rightarrow> int" where
  "jsRem a b = sgn a * (\<bar>a\<bar> mod \<bar>b\<bar>)"

definition jsFmod :: "real \<Rightarrow> real \<Rightarrow> real" where
  "jsFmod a b =
     a - b * real_of_int (if a / b \<ge> 0 then \<lfloor>a / b\<rfloor> else \<lceil>a / b\<rceil>)"

text \<open>Decimal rendering of an integer inside a template string.\<close>

fun showNat :: "nat \<Rightarrow> string" where
  "showNat n =
     (if n < 10 then [char_of (48 + n)]
      else showNat (n div 10) @ [char_of (48 + n mod 10)])"

definition showInt :: "int \<Rightarrow> string" where
  "showInt i = (if i < 0 then CHR ''-'' # showNat (nat (- i)) else showNat (nat i))"

text \<open>Property assignment \<open>obj[key] = v\<close>: in place when the key exists, appended otherwise.\<close>

fun assign :: "obstacle_type \<Rightarrow> real \<Rightarrow> weights_object \<Rightarrow> weights_object" where
  "assign key v [] = [(key, v)]"
| "assign key v ((k, w) # rest) =
     (if k = key then (k, v) # rest else (k, w) # assign key v rest)"

text \<open>
  The body of the \<open>forEach\<close> over the keys of \<open>modifiedWeights\<close>, the object at
  address \<open>a\<close>. The keys come from the object itself, so the lookup finds each one.
\<close>

definition adjustWeight :: "int \<Rightarrow> nat \<Rightarrow> obstacle_type \<Rightarrow> Store \<Rightarrow> Store" where
  "adjustWeight seed a key st =
     (let adjustment = sin (real_of_int seed * 0.01 + real (length (keyName key))) * 0.1
      in case map_of (heap st a) key of
           Some w \<Rightarrow> st\<lparr>heap := (heap st)(a := assign key (max 0.01 (w + adjustment)) (heap st a))\<rparr>
         | None \<Rightarrow> st)"

text \<open>
  \<open>generateAILevelPattern\<close>. A negative remainder indexes outside \<open>LEVEL_PATTERNS\<close>;
  reading \<open>weights\<close> of the undefined result throws. The spread allocates a new object
  holding a copy of the base pattern's entries; the loop writes to the copy only.
\<close>

definition generateAILevelPattern :: "int \<Rightarrow> Store \<Rightarrow> (error + LevelPattern) \<times> Store" where
  "generateAILevelPattern seed st =
     (let patternIndex = jsRem seed (int (length LEVEL_PATTERNS))
      in if patternIndex < 0 then (Inl TypeError, st)
         else
           (let basePattern = LEVEL_PATTERNS ! nat patternIndex;
                variation = jsFmod (real_of_int seed * 0.1) 1;
                a = nextAddr st;
                st1 = st\<lparr>heap := (heap st)(a := heap st (weights basePattern)),
                         nextAddr := a + 1\<rparr>;
                st2 = fold (adjustWeight seed a) (map fst (heap st1 a)) st1
            in (Inr \<lparr>pattern_name =
                       pattern_name basePattern @ '' (Variant '' @
                       showInt \<lfloor>variation * 10\<rfloor> @ '')'',
                     weights = a\<rparr>,
                st2)))"

text \<open>
  What a caller can see of a call: the error, or the label and the entries of the
  returned weights object.
\<close>

definition observe :: "(error + LevelPattern) \<times> Store \<Rightarrow> error + string \<times> weights_object" where
  "observe res =
     (case fst res of
        Inl e \<Rightarrow> Inl e
      | Inr p \<Rightarrow> Inr (pattern_name p, heap (snd res) (weights p)))"

text \<open>The two call sites: the HUD label and the spawner.\<close>

definition displayPattern :: "GameState \<Rightarrow> Store \<Rightarrow> (error + LevelPattern) \<times> Store" where
  "displayPattern gs st = generateAILevelPattern (levelSeed gs + score gs div 500) st"

definition spawnerPattern :: "GameState \<Rightarrow> Store \<Rightarrow> (error + LevelPattern) \<times> Store" where
  "spawnerPattern gs st = generateAILevelPattern (levelSeed gs + score gs div 500) st"

text \<open>
  The selection loop of \<open>generateObstacle\<close> over \<open>Object.entries\<close>:
  \<open>cumulativeWeight\<close> and \<open>selectedType\<close> are the loop's two variables, and
  \<open>break\<close> returns the type just assigned.
\<close>

fun selectLoop ::
  "real \<Rightarrow> real \<Rightarrow> weights_object \<Rightarrow> obstacle_type \<Rightarrow> obstacle_type" where
  "selectLoop rand cumulativeWeight [] selectedType = selectedType"
| "selectLoop rand cumulativeWeight ((type, weight) # rest) selectedType =
     (if rand \<le> cumulativeWeight + weight then type
      else selectLoop rand (cumulativeWeight + weight) rest selectedType)"

definition selectType :: "real \<Rightarrow> weights_object \<Rightarrow> obstacle_type" where
  "selectType rand entries = selectLoop rand 0 entries Crab"

text \<open>
  \<open>generateObstacle\<close>: \<open>rand\<close> is the selector's draw, \<open>rndX\<close> and \<open>rndY\<close> the
  draws for the position.
\<close>

definition generateObstacle ::
  "GameState \<Rightarrow> real \<Rightarrow> real \<Rightarrow> real \<Rightarrow> real \<Rightarrow> Store \<Rightarrow> (error + Obstacle) \<times> Store" where
  "generateObstacle gs canvasWidth rand rndX rndY st =
     (case spawnerPattern gs st of
        (Inl e, st') \<Rightarrow> (Inl e, st')
      | (Inr currentPattern, st') \<Rightarrow>
          (let selectedType = selectType rand (heap st' (weights currentPattern));
               baseObstacle =
                 \<lparr>x = canvasWidth + rndX * 200,
                  y = (if selectedType = Gap then 332
                       else if selectedType = Parrot then 200 + rndY * 50 else 300),
                  width = (if selectedType = Gap then 60
                           else if selectedType = TreasureChest then 40 else 32),
                  height = (if selectedType = Gap then 68
                            else if selectedType = TreasureChest then 28 else 32),
                  otype = selectedType, behavior = None\<rparr>
           in (Inr (case selectedType of
                      MoonwalkCrab \<Rightarrow>
                        baseObstacle\<lparr>behavior :=
                          Some \<lparr>direction = Some (- 1), speed = Some 1, amplitude = None,
                                frequency = None, bprojectiles = None\<rparr>\<rparr>
                    | Parrot \<Rightarrow>
                        baseObstacle\<lparr>behavior :=
                          Some \<lparr>direction = None, speed = None, amplitude = Some 30,
                                frequency = Some 0.05, bprojectiles = Some []\<rparr>\<rparr>
                    | _ \<Rightarrow> baseObstacle),
               st')))"


section \<open>The persistent profile\<close>

text \<open>
  \<open>generateDailyChallenges\<close>. The pool entries carry no progress in the source; the
  final \<open>map\<close> adds \<open>progress: 0\<close> and \<open>completed: false\<close>. The order after the
  random \<open>sort\<close> is the argument \<open>shuffled\<close>.
\<close>

definition challengePool :: "DailyChallenge list" where
  "challengePool =
     [\<lparr>dc_id = ''coins-50'', dc_name = ''Treasure Hunter'',
       dc_description = ''Collect 50 coins in one run'', target = 50, progress = 0,
       reward = 25, completed = False, ctype = Coins\<rparr>,
      \<lparr>dc_id = ''score-1000'', dc_name = ''Distance Runner'',
       dc_description = ''Reach a score of 1000'', target = 1000, progress = 0,
       reward = 50, completed = False, ctype = Score\<rparr>,
      \<lparr>dc_id = ''survival-120'', dc_name = ''Sea Survivor'',
       dc_description = ''Survive for 2 minutes'', target = 120, progress = 0,
       reward = 40, completed = False, ctype = Survival\<rparr>,
      \<lparr>dc_id = ''enemies-10'', dc_name = ''Enemy Slayer'',
       dc_description = ''Defeat 10 enemies'', target = 10, progress = 0,
       reward = 30, completed = False, ctype = Enemies\<rparr>,
      \<lparr>dc_id = ''coins-100'', dc_name = ''Gold Rush'',
       dc_description = ''Collect 100 coins total'', target = 100, progress = 0,
       reward = 75, completed = False, ctype = Coins\<rparr>]"

definition generateDailyChallenges :: "DailyChallenge list \<Rightarrow> DailyChallenge list" where
  "generateDailyChallenges shuffled =
     map (\<lambda>challenge. challenge\<lparr>progress := 0, completed := False\<rparr>) (take 3 shuffled)"

definition generatePirateOutfits :: "PirateOutfit list" where
  "generatePirateOutfits =
     [\<lparr>po_id = ''default'', po_name = ''Classic Pirate'',
       po_description = ''The traditional pirate look'', po_cost = 0, unlocked = True,
       parts = \<lparr>hat = Some ''black'', beard = Some ''brown'', shirt = Some ''red'',
                accessory = Some ''sword''\<rparr>\<rparr>,
      \<lparr>po_id = ''fancy'', po_name = ''Fancy Captain'',
       po_description = ''For the distinguished pirate'', po_cost = 100, unlocked = False,
       parts = \<lparr>hat = Some ''feathered'', beard = Some ''white'', shirt = Some ''blue'',
                accessory = Some ''telescope''\<rparr>\<rparr>,
      \<lparr>po_id = ''ghost'', po_name = ''Ghost Pirate'',
       po_description = ''Spooky and mysterious'', po_cost = 200, unlocked = False,
       parts = \<lparr>hat = Some ''tattered'', beard = Some ''wispy'', shirt = Some ''ghostly'',
                accessory = Some ''lantern''\<rparr>\<rparr>,
      \<lparr>po_id = ''royal'', po_name = ''Pirate King'',
       po_description = ''Rule the seven seas in style'', po_cost = 500, unlocked = False,
       parts = \<lparr>hat = Some ''crown'', beard = Some ''golden'', shirt = Some ''royal'',
                accessory = Some ''scepter''\<rparr>\<rparr>]"

text \<open>
  The initial value of \<open>playerProgress\<close> when nothing is saved; \<open>today\<close> is
  \<open>new Date().toDateString()\<close>.
\<close>

definition freshProgress :: "DailyChallenge list \<Rightarrow> string \<Rightarrow> PlayerProgress" where
  "freshProgress shuffled today =
     \<lparr>totalCoins = 0, shipUpgrades = initialUpgrades, gamesPlayed = 0, bestScore = 0,
      dailyChallenges = generateDailyChallenges shuffled, lastChallengeReset = today,
      pirateOutfits = generatePirateOutfits, selectedOutfit = ''default'',
      totalEnemiesDefeated = 0, totalSurvivalTime = 0\<rparr>"

text \<open>
  The initial value when a profile is saved: the challenges are regenerated when the
  stored date is not today, and a missing (falsy) counter becomes 0. A saved profile
  of this model always has its outfits, so the outfit back-fill does not apply.
\<close>

definition loadProgress :: "DailyChallenge list \<Rightarrow> string \<Rightarrow> PlayerProgress \<Rightarrow> PlayerProgress" where
  "loadProgress shuffled today saved =
     (let p1 = (if lastChallengeReset saved \<noteq> today
                then saved\<lparr>dailyChallenges := generateDailyChallenges shuffled,
                           lastChallengeReset := today\<rparr>
                else saved);
          p2 = (if totalEnemiesDefeated p1 = 0 then p1\<lparr>totalEnemiesDefeated := 0\<rparr> else p1);
          p3 = (if totalSurvivalTime p2 = 0 then p2\<lparr>totalSurvivalTime := 0\<rparr> else p2)
      in p3)"

definition purchaseUpgrade :: "string \<Rightarrow> PlayerProgress \<Rightarrow> PlayerProgress" where
  "purchaseUpgrade upgradeId prev =
     (case find (\<lambda>u. su_id u = upgradeId) (shipUpgrades prev) of
        None \<Rightarrow> prev
      | Some upgrade \<Rightarrow>
          if currentLevel upgrade \<ge> maxLevel upgrade then prev
          else
            (let price = cost upgrade * (currentLevel upgrade + 1)
             in if totalCoins prev < price then prev
                else
                  prev\<lparr>totalCoins := totalCoins prev - price,
                       shipUpgrades :=
                         map (\<lambda>u. if su_id u = upgradeId
                                   then u\<lparr>currentLevel := currentLevel u + 1\<rparr> else u)
                           (shipUpgrades prev)\<rparr>))"

definition updateChallengeProgress :: "challenge_type \<Rightarrow> int \<Rightarrow> PlayerProgress \<Rightarrow> PlayerProgress" where
  "updateChallengeProgress t amount prev =
     prev\<lparr>dailyChallenges :=
       map (\<lambda>challenge.
              if ctype challenge = t \<and> \<not> completed challenge then
                (let newProgress = progress challenge + amount;
                     done = (newProgress \<ge> target challenge)
                 in if done \<and> \<not> completed challenge
                    then challenge\<lparr>progress := newProgress, completed := True\<rparr>
                    else challenge\<lparr>progress := newProgress\<rparr>)
              else challenge)
         (dailyChallenges prev)\<rparr>"

definition purchaseOutfit :: "string \<Rightarrow> PlayerProgress \<Rightarrow> PlayerProgress" where
  "purchaseOutfit outfitId prev =
     (case find (\<lambda>outfit. po_id outfit = outfitId) (pirateOutfits prev) of
        None \<Rightarrow> prev
      | Some outfit \<Rightarrow>
          if unlocked outfit \<or> totalCoins prev < po_cost outfit then prev
          else
            prev\<lparr>totalCoins := totalCoins prev - po_cost outfit,
                 pirateOutfits :=
                   map (\<lambda>outfit. if po_id outfit = outfitId then outfit\<lparr>unlocked := True\<rparr> else outfit)
                     (pirateOutfits prev)\<rparr>)"

definition selectOutfit :: "string \<Rightarrow> PlayerProgress \<Rightarrow> PlayerProgress" where
  "selectOutfit outfitId prev = prev\<lparr>selectedOutfit := outfitId\<rparr>"

section \<open>The end of a run\<close>

text \<open>
  The statements that a frame of \<open>gameLoop\<close> queues on the game state directly, in
  their order: the collision passes, the score increment, and the game-over check.
  \<open>gs\<close>, \<open>pl\<close>, \<open>obs\<close> and \<open>projs\<close> are the values of the render the frame was
  created in; \<open>prev\<close> is the cell the queued updates are applied to.
\<close>

definition gameLoop_gameState ::
  "GameState \<Rightarrow> Player \<Rightarrow> Obstacle list \<Rightarrow> Projectile list \<Rightarrow> GameState \<Rightarrow> GameState" where
  "gameLoop_gameState gs pl obs projs prev =
     (let g1 = gameLoop_collisions pl obs projs prev;
          g2 = g1\<lparr>score := score g1 + 1\<rparr>
      in if lives gs \<le> 1 then g2\<lparr>isPlaying := False\<rparr> else g2)"

text \<open>The profile update of the same game-over check at the end of a frame.\<close>

definition gameLoop_progress :: "GameState \<Rightarrow> PlayerProgress \<Rightarrow> PlayerProgress" where
  "gameLoop_progress gs prev =
     (if lives gs \<le> 1
      then prev\<lparr>gamesPlayed := gamesPlayed prev + 1,
                bestScore := max (bestScore prev) (totalCoins prev + coins gs),
                totalCoins := totalCoins prev + coins gs\<rparr>
      else prev)"

text \<open>
  \<open>handleGameOver\<close>: the reward sum is computed from the game state and the
  challenges of the render the handler was created in.
\<close>

definition challengeRewards :: "GameState \<Rightarrow> DailyChallenge list \<Rightarrow> int" where
  "challengeRewards gs challenges =
     (let completedChallenges =
            filter (\<lambda>c. \<not> completed c \<and>
                      ((ctype c = Score \<and> score gs \<ge> target c) \<or>
                       (ctype c = Coins \<and> coins gs \<ge> target c) \<or>
                       (ctype c = Survival \<and> score gs div 10 \<ge> target c)))
              challenges
      in fold (\<lambda>challenge total. total + reward challenge) completedChallenges 0)"

text \<open>
  The profile updates that \<open>handleGameOver\<close> queues, in order: three challenge
  updates, then the totals. \<open>gs\<close> and \<open>playerProgress\<close> are the values of the
  handler's render, \<open>prev\<close> the profile cell.
\<close>

definition handleGameOver :: "GameState \<Rightarrow> PlayerProgress \<Rightarrow> PlayerProgress \<Rightarrow> PlayerProgress" where
  "handleGameOver gs playerProgress prev =
     (let p1 = updateChallengeProgress Score (score gs) prev;
          p2 = updateChallengeProgress Coins (coins gs) p1;
          p3 = updateChallengeProgress Survival (score gs div 10) p2;
          rewards = challengeRewards gs (dailyChallenges playerProgress)
      in p3\<lparr>totalCoins := totalCoins p3 + coins gs + rewards,
            gamesPlayed := gamesPlayed p3 + 1,
            bestScore := max (bestScore p3) (score gs),
            totalSurvivalTime := totalSurvivalTime p3 + score gs div 10\<rparr>)"

text \<open>
  The callback of the 2-second timer: stop playing, run the handler (which also sets
  the new catchphrase and opens the upgrade panel), clear the timer cell.
\<close>

definition gameOverTimerFired ::
  "GameState \<Rightarrow> PlayerProgress \<Rightarrow> string \<Rightarrow> Session \<times> PlayerProgress \<Rightarrow> Session \<times> PlayerProgress" where
  "gameOverTimerFired gs playerProgress newCatchphrase sp =
     (let s = fst sp;
          g1 = (gameState s)\<lparr>isPlaying := False\<rparr>;
          g2 = g1\<lparr>currentCatchphrase := newCatchphrase\<rparr>
      in (s\<lparr>gameState := g2, showShipUpgrades := True, gameOverTimer := None\<rparr>,
          handleGameOver gs playerProgress (snd sp)))"

text \<open>
  Every operation that writes the profile: the call sites of \<open>setPlayerProgress\<close>
  and the load at start-up. \<open>updateChallengeProgress\<close> is called by
  \<open>handleGameOver\<close> only.
\<close>

datatype profile_op =
    PurchaseUpgrade string
  | PurchaseOutfit string
  | SelectOutfit string
  | GameLoopEnd GameState
  | HandleGameOver GameState PlayerProgress
  | Reload "DailyChallenge list" string

fun applyOp :: "profile_op \<Rightarrow> PlayerProgress \<Rightarrow> PlayerProgress" where
  "applyOp (PurchaseUpgrade upgradeId) p = purchaseUpgrade upgradeId p"
| "applyOp (PurchaseOutfit outfitId) p = purchaseOutfit outfitId p"
| "applyOp (SelectOutfit outfitId) p = selectOutfit outfitId p"
| "applyOp (GameLoopEnd gs) p = gameLoop_progress gs p"
| "applyOp (HandleGameOver gs playerProgress) p = handleGameOver gs playerProgress p"
| "applyOp (Reload shuffled today) p = loadProgress shuffled today p"

definition runOps :: "profile_op list \<Rightarrow> PlayerProgress \<Rightarrow> PlayerProgress" where
  "runOps ops p = fold applyOp ops p"


section \<open>Auxiliary predicates\<close>

text \<open>
  The literal weights objects of \<open>LEVEL_PATTERNS\<close> exist before anything is allocated:
  their addresses lie below \<open>nextAddr\<close>.
\<close>

definition patternsAllocated :: "Store \<Rightarrow> bool" where
  "patternsAllocated st \<longleftrightarrow> (\<forall>p\<in>set LEVEL_PATTERNS. weights p < nextAddr st)"

text \<open>No enemy has been counted and every challenge of type enemies is untouched.\<close>

definition enemiesIdle :: "PlayerProgress \<Rightarrow> bool" where
  "enemiesIdle p \<longleftrightarrow>
     totalEnemiesDefeated p = 0 \<and>
     (\<forall>c\<in>set (dailyChallenges p). ctype c = Enemies \<longrightarrow> progress c = 0 \<and> \<not> completed c)"

section \<open>Lives under collisions\<close>

lemma floor_step:
  "1 \<le> l \<Longrightarrow> 0 \<le> c \<Longrightarrow> max 1 (max 1 (l - 1) - c) = max (1::real) (l - (1 + c))"
  by (auto simp: max_def)

lemma floor_twice:
  "1 \<le> l \<Longrightarrow> max 1 (max 1 (l - real a) - real b) = max (1::real) (l - real (a + b))"
  by (auto simp: max_def)

lemma obstacleCollision_lives:
  "lives (obstacleCollision pl ob gs) =
     (if checkCollision pl ob \<and> otype ob \<noteq> TreasureChest
      then max 1 (lives gs - 1) else lives gs)"
  by (auto simp: obstacleCollision_def checkCollision_def)

lemma projectileCollision_lives:
  "lives (projectileCollision pl pr gs) =
     (if checkCollision pl pr then max 1 (lives gs - 1) else lives gs)"
  by (simp add: projectileCollision_def)

lemma fold_obstacle_lives:
  "1 \<le> lives gs \<Longrightarrow>
   lives (fold (obstacleCollision pl) obs gs) =
     max 1 (lives gs -
       real (length (filter (\<lambda>ob. checkCollision pl ob \<and> otype ob \<noteq> TreasureChest) obs)))"
proof (induction obs arbitrary: gs)
  case Nil
  then show ?case by simp
next
  case (Cons ob obs)
  have ge: "1 \<le> lives (obstacleCollision pl ob gs)"
    using Cons.prems by (simp add: obstacleCollision_lives)
  show ?case
    using Cons.IH[OF ge] Cons.prems
    by (simp add: obstacleCollision_lives floor_step)
qed

lemma fold_projectile_lives:
  "1 \<le> lives gs \<Longrightarrow>
   lives (fold (projectileCollision pl) projs gs) =
     max 1 (lives gs - real (length (filter (checkCollision pl) projs)))"
proof (induction projs arbitrary: gs)
  case Nil
  then show ?case by simp
next
  case (Cons pr projs)
  have ge: "1 \<le> lives (projectileCollision pl pr gs)"
    using Cons.prems by (simp add: projectileCollision_lives)
  show ?case
    using Cons.IH[OF ge] Cons.prems
    by (simp add: projectileCollision_lives floor_step)
qed

text \<open>
  C3. With at least one life, a collision with any obstacle that is not a treasure
  chest (a water gap the player has reached, a crab, a barrel, a parrot) and a hit by a
  projectile each set lives to \<open>max 1 (lives - 1)\<close>. A whole collision pass over the
  obstacles and projectiles of a frame leaves \<open>max 1 (lives - n)\<close> lives, where \<open>n\<close>
  counts the deducting collisions, so lives stay at 1 or above.
\<close>

theorem collision_lives_floor:
  assumes "1 \<le> lives gs"
  shows "(checkCollision pl ob \<and> otype ob \<noteq> TreasureChest \<longrightarrow>
            lives (obstacleCollision pl ob gs) = max 1 (lives gs - 1)) \<and>
         (checkCollision pl pr \<longrightarrow>
            lives (projectileCollision pl pr gs) = max 1 (lives gs - 1)) \<and>
         1 \<le> lives (obstacleCollision pl ob gs) \<and>
         1 \<le> lives (projectileCollision pl pr gs) \<and>
         lives (gameLoop_collisions pl obs projs gs) =
           max 1 (lives gs -
             real (length (filter (\<lambda>ob. checkCollision pl ob \<and> otype ob \<noteq> TreasureChest) obs) +
                   length (filter (checkCollision pl) projs))) \<and>
         1 \<le> lives (gameLoop_collisions pl obs projs gs)"
proof -
  let ?g = "fold (obstacleCollision pl) obs gs"
  have a: "lives ?g =
      max 1 (lives gs -
        real (length (filter (\<lambda>ob. checkCollision pl ob \<and> otype ob \<noteq> TreasureChest) obs)))"
    using assms by (rule fold_obstacle_lives)
  then have b: "1 \<le> lives ?g" by simp
  have c: "lives (gameLoop_collisions pl obs projs gs) =
           max 1 (lives gs -
             real (length (filter (\<lambda>ob. checkCollision pl ob \<and> otype ob \<noteq> TreasureChest) obs) +
                   length (filter (checkCollision pl) projs)))"
    unfolding gameLoop_collisions_def fold_projectile_lives[OF b] a
    using assms by (rule floor_twice)
  have d: "1 \<le> lives (gameLoop_collisions pl obs projs gs)"
    unfolding c by simp
  show ?thesis
    using assms c d by (simp add: obstacleCollision_lives projectileCollision_lives)
qed

theorem collision_lives_floor_witness:
  "1 \<le> lives \<lparr>isPlaying = True, isPaused = False, score = 0, coins = 0, lives = 2,
       gameSpeed = 4,
       shipBoosts = \<lparr>speedMultiplier = 1, extraLives = 0, coinMagnetRange = 0,
                     startingLives = 0\<rparr>,
       currentCatchphrase = [], levelSeed = 0\<rparr> \<and>
   checkCollision initialPlayer
     \<lparr>x = 110, y = 300, width = 32, height = 32, otype = Crab, behavior = None\<rparr> \<and>
   checkCollision initialPlayer
     \<lparr>x = 105, y = 310, width = 8, height = 4, pvelocityX = - 3, pvelocityY = 0,
      ptype = Banana\<rparr> \<and>
   lives (gameLoop_collisions initialPlayer
      [\<lparr>x = 110, y = 300, width = 32, height = 32, otype = Crab, behavior = None\<rparr>,
       \<lparr>x = 120, y = 300, width = 32, height = 32, otype = Barrel, behavior = None\<rparr>]
      [\<lparr>x = 105, y = 310, width = 8, height = 4, pvelocityX = - 3, pvelocityY = 0,
        ptype = Banana\<rparr>]
      \<lparr>isPlaying = True, isPaused = False, score = 0, coins = 0, lives = 2,
       gameSpeed = 4,
       shipBoosts = \<lparr>speedMultiplier = 1, extraLives = 0, coinMagnetRange = 0,
                     startingLives = 0\<rparr>,
       currentCatchphrase = [], levelSeed = 0\<rparr>) = 1"
  using collision_lives_floor
    [of "\<lparr>isPlaying = True, isPaused = False, score = 0, coins = 0, lives = 2,
          gameSpeed = 4,
          shipBoosts = \<lparr>speedMultiplier = 1, extraLives = 0, coinMagnetRange = 0,
                        startingLives = 0\<rparr>,
          currentCatchphrase = [], levelSeed = 0\<rparr>"
        initialPlayer
        "\<lparr>x = 110, y = 300, width = 32, height = 32, otype = Crab, behavior = None\<rparr>"
        "\<lparr>x = 105, y = 310, width = 8, height = 4, pvelocityX = - 3, pvelocityY = 0,
          ptype = Banana\<rparr>"
        "[\<lparr>x = 110, y = 300, width = 32, height = 32, otype = Crab, behavior = None\<rparr>,
          \<lparr>x = 120, y = 300, width = 32, height = 32, otype = Barrel, behavior = None\<rparr>]"
        "[\<lparr>x = 105, y = 310, width = 8, height = 4, pvelocityX = - 3, pvelocityY = 0,
           ptype = Banana\<rparr>]"]
  by (simp add: checkCollision_def initialPlayer_def)

section \<open>Slide and jump guards\<close>

text \<open>
  C8. While the session is playing and the player of the current render is not
  sliding, \<open>slide\<close> sets the height to 16 and \<open>y\<close> to \<open>groundY + 16\<close> and marks the
  player as sliding, whatever the altitude and whether or not the player is jumping;
  otherwise it changes nothing. The guard of \<open>slide\<close> does not read \<open>isJumping\<close> and
  the guard of \<open>jump\<close> does not read \<open>isSliding\<close>.
\<close>

theorem slide_accepted_midair:
  "(isPlaying gs \<and> \<not> isSliding pl \<longrightarrow>
      slide gs pl prev = prev\<lparr>isSliding := True, height := 16, y := groundY prev + 16\<rparr>) \<and>
   (\<not> (isPlaying gs \<and> \<not> isSliding pl) \<longrightarrow> slide gs pl prev = prev) \<and>
   slide gs (pl\<lparr>isJumping := b\<rparr>) prev = slide gs pl prev \<and>
   (\<not> isJumping pl \<and> isPlaying gs \<longrightarrow>
      jump gs pl prev = prev\<lparr>velocityY := JUMP_FORCE, isJumping := True\<rparr>) \<and>
   (\<not> (\<not> isJumping pl \<and> isPlaying gs) \<longrightarrow> jump gs pl prev = prev) \<and>
   jump gs (pl\<lparr>isSliding := b\<rparr>) prev = jump gs pl prev"
  by (simp add: slide_def jump_def)

theorem slide_accepted_midair_witness:
  "isPlaying \<lparr>isPlaying = True, isPaused = False, score = 40, coins = 0, lives = 3,
       gameSpeed = 4,
       shipBoosts = \<lparr>speedMultiplier = 1, extraLives = 0, coinMagnetRange = 0,
                     startingLives = 0\<rparr>,
       currentCatchphrase = [], levelSeed = 0\<rparr> \<and>
   isJumping (initialPlayer\<lparr>y := 200, velocityY := - 5, isJumping := True\<rparr>) \<and>
   \<not> isSliding (initialPlayer\<lparr>y := 200, velocityY := - 5, isJumping := True\<rparr>) \<and>
   slide \<lparr>isPlaying = True, isPaused = False, score = 40, coins = 0, lives = 3,
       gameSpeed = 4,
       shipBoosts = \<lparr>speedMultiplier = 1, extraLives = 0, coinMagnetRange = 0,
                     startingLives = 0\<rparr>,
       currentCatchphrase = [], levelSeed = 0\<rparr>
     (initialPlayer\<lparr>y := 200, velocityY := - 5, isJumping := True\<rparr>)
     (initialPlayer\<lparr>y := 200, velocityY := - 5, isJumping := True\<rparr>) =
     \<lparr>x = 100, y = 316, width = 32, height = 16, velocityY = - 5, isJumping = True,
      isSliding = True, groundY = 300\<rparr> \<and>
   jump \<lparr>isPlaying = True, isPaused = False, score = 40, coins = 0, lives = 3,
       gameSpeed = 4,
       shipBoosts = \<lparr>speedMultiplier = 1, extraLives = 0, coinMagnetRange = 0,
                     startingLives = 0\<rparr>,
       currentCatchphrase = [], levelSeed = 0\<rparr>
     (initialPlayer\<lparr>y := 200, velocityY := - 5, isJumping := True\<rparr>)
     (initialPlayer\<lparr>y := 200, velocityY := - 5, isJumping := True\<rparr>) =
     initialPlayer\<lparr>y := 200, velocityY := - 5, isJumping := True\<rparr>"
  using slide_accepted_midair
    [of "\<lparr>isPlaying = True, isPaused = False, score = 40, coins = 0, lives = 3,
          gameSpeed = 4,
          shipBoosts = \<lparr>speedMultiplier = 1, extraLives = 0, coinMagnetRange = 0,
                        startingLives = 0\<rparr>,
          currentCatchphrase = [], levelSeed = 0\<rparr>"
        "initialPlayer\<lparr>y := 200, velocityY := - 5, isJumping := True\<rparr>"
        "initialPlayer\<lparr>y := 200, velocityY := - 5, isJumping := True\<rparr>"]
  by (simp add: initialPlayer_def)

section \<open>Lives at the start of a run\<close>

text \<open>
  C10. \<open>startGame\<close> sets lives to \<open>max 1 (3 + startingLives + extraLives)\<close> of the
  ship boosts, with no upper bound: with every upgrade of a fresh profile at its
  maximum level (hull 3, crew 2) the run starts with 8 lives. The pickup of an
  extra-life power-up sets lives to \<open>min (lives + 1) 5\<close>.
\<close>

theorem startGame_lives_uncapped:
  "lives (gameState (startGame pp mobile rnd phrase s)) =
     max 1 (3 + startingLives (calculateShipBoosts (shipUpgrades pp)) +
                extraLives (calculateShipBoosts (shipUpgrades pp))) \<and>
   lives (gameState (startGame
            (pp\<lparr>shipUpgrades := map (\<lambda>u. u\<lparr>currentLevel := maxLevel u\<rparr>) initialUpgrades\<rparr>)
            mobile rnd phrase s)) = 8 \<and>
   (\<not> pu_collected pu \<and> checkCollision pl pu \<and> putype pu = ExtraLife \<longrightarrow>
      lives (powerUpPickup pl pu g) = min (lives g + 1) 5)"
  by (simp add: startGame_def Let_def calculateShipBoosts_def initialUpgrades_def
      addBoost_def powerUpPickup_def)

theorem startGame_lives_uncapped_witness:
  "\<not> pu_collected \<lparr>x = 110, y = 300, width = 20, height = 20, putype = ExtraLife,
                    pu_collected = False\<rparr> \<and>
   checkCollision initialPlayer
     \<lparr>x = 110, y = 300, width = 20, height = 20, putype = ExtraLife, pu_collected = False\<rparr> \<and>
   lives (gameState (startGame
            ((freshProgress [] [])\<lparr>shipUpgrades :=
                map (\<lambda>u. u\<lparr>currentLevel := maxLevel u\<rparr>) initialUpgrades\<rparr>)
            False 0 [] (initialSession (freshProgress [] []) False 0 []))) = 8 \<and>
   lives (powerUpPickup initialPlayer
     \<lparr>x = 110, y = 300, width = 20, height = 20, putype = ExtraLife, pu_collected = False\<rparr>
     (gameState (startGame
            ((freshProgress [] [])\<lparr>shipUpgrades :=
                map (\<lambda>u. u\<lparr>currentLevel := maxLevel u\<rparr>) initialUpgrades\<rparr>)
            False 0 [] (initialSession (freshProgress [] []) False 0 [])))) = 5"
  using startGame_lives_uncapped
    [of "freshProgress [] []" False 0 "[]" "initialSession (freshProgress [] []) False 0 []"
        "\<lparr>x = 110, y = 300, width = 20, height = 20, putype = ExtraLife, pu_collected = False\<rparr>"
        initialPlayer
        "gameState (startGame
            ((freshProgress [] [])\<lparr>shipUpgrades :=
                map (\<lambda>u. u\<lparr>currentLevel := maxLevel u\<rparr>) initialUpgrades\<rparr>)
            False 0 [] (initialSession (freshProgress [] []) False 0 []))"]
  by (simp add: checkCollision_def initialPlayer_def)


section \<open>The weighted selector\<close>

lemma selectLoop_hit:
  "i < length ws \<Longrightarrow>
   rand \<le> c + sum_list (map snd (take (Suc i) ws)) \<Longrightarrow>
   (\<forall>j<i. c + sum_list (map snd (take (Suc j) ws)) < rand) \<Longrightarrow>
   selectLoop rand c ws d = fst (ws ! i)"
proof (induction ws arbitrary: c i)
  case Nil
  then show ?case by simp
next
  case (Cons p ws)
  obtain t w where p: "p = (t, w)" by (cases p)
  show ?case
  proof (cases i)
    case 0
    then show ?thesis using Cons.prems p by simp
  next
    case (Suc k)
    have first: "c + w < rand" using Cons.prems(3) Suc p by force
    have k: "k < length ws" using Cons.prems(1) Suc by simp
    have le: "rand \<le> (c + w) + sum_list (map snd (take (Suc k) ws))"
      using Cons.prems(2) Suc p by (simp add: add.assoc)
    have lt: "\<forall>j<k. (c + w) + sum_list (map snd (take (Suc j) ws)) < rand"
    proof (intro allI impI)
      fix j assume "j < k"
      then have "Suc j < i" using Suc by simp
      then have "c + sum_list (map snd (take (Suc (Suc j)) (p # ws))) < rand"
        using Cons.prems(3) by blast
      then show "(c + w) + sum_list (map snd (take (Suc j) ws)) < rand"
        using p by (simp add: add.assoc)
    qed
    show ?thesis using Cons.IH[OF k le lt] first p Suc by simp
  qed
qed

lemma selectLoop_miss:
  "(\<forall>j<length ws. c + sum_list (map snd (take (Suc j) ws)) < rand) \<Longrightarrow>
   selectLoop rand c ws d = d"
proof (induction ws arbitrary: c)
  case Nil
  then show ?case by simp
next
  case (Cons p ws)
  obtain t w where p: "p = (t, w)" by (cases p)
  have first: "c + w < rand" using Cons.prems p by force
  have rest: "\<forall>j<length ws. (c + w) + sum_list (map snd (take (Suc j) ws)) < rand"
  proof (intro allI impI)
    fix j assume "j < length ws"
    then have "Suc j < length (p # ws)" by simp
    then have "c + sum_list (map snd (take (Suc (Suc j)) (p # ws))) < rand"
      using Cons.prems by blast
    then show "(c + w) + sum_list (map snd (take (Suc j) ws)) < rand"
      using p by (simp add: add.assoc)
  qed
  show ?case using Cons.IH[OF rest] first p by simp
qed

lemma prefix_le_total:
  "\<forall>w\<in>set ws. 0 \<le> snd w \<Longrightarrow> sum_list (map snd (take n ws)) \<le> sum_list (map snd (ws::(obstacle_type \<times> real) list))"
proof -
  assume nn: "\<forall>w\<in>set ws. 0 \<le> snd w"
  have "sum_list (map snd ws) = sum_list (map snd (take n ws)) + sum_list (map snd (drop n ws))"
    by (metis append_take_drop_id map_append sum_list_append)
  moreover have "0 \<le> sum_list (map snd (drop n ws))"
    using nn by (intro sum_list_nonneg) (auto dest: in_set_dropD)
  ultimately show ?thesis by linarith
qed

lemma generateObstacle_type:
  "generateObstacle gs canvasWidth rand rndX rndY st = (Inr ob, st') \<Longrightarrow>
   \<exists>pat. spawnerPattern gs st = (Inr pat, st') \<and>
         otype ob = selectType rand (heap st' (weights pat))"
  by (auto simp: generateObstacle_def Let_def split: prod.splits sum.splits obstacle_type.splits)

text \<open>
  C2 (as amended). The selector scans the entries in enumeration order, adding up the
  weights, and returns the first type whose cumulative sum is at least the draw. When
  no cumulative sum reaches the draw, in particular when the weights are non-negative
  and the draw exceeds their total, it returns the initial value of \<open>selectedType\<close>,
  the type crab, wherever crab stands in the enumeration.
\<close>

theorem selectType_cumulative_scan:
  "(i < length ws \<and> rand \<le> sum_list (map snd (take (Suc i) ws)) \<and>
      (\<forall>j<i. sum_list (map snd (take (Suc j) ws)) < rand) \<longrightarrow>
      selectType rand ws = fst (ws ! i)) \<and>
   ((\<forall>j<length ws. sum_list (map snd (take (Suc j) ws)) < rand) \<longrightarrow>
      selectType rand ws = Crab) \<and>
   ((\<forall>w\<in>set ws. 0 \<le> snd w) \<and> sum_list (map snd ws) < rand \<longrightarrow>
      selectType rand ws = Crab)"
proof (intro conjI impI)
  assume h: "i < length ws \<and> rand \<le> sum_list (map snd (take (Suc i) ws)) \<and>
      (\<forall>j<i. sum_list (map snd (take (Suc j) ws)) < rand)"
  show "selectType rand ws = fst (ws ! i)"
    unfolding selectType_def using selectLoop_hit[of i ws rand 0 Crab] h by simp
next
  assume h: "\<forall>j<length ws. sum_list (map snd (take (Suc j) ws)) < rand"
  show "selectType rand ws = Crab"
    unfolding selectType_def using selectLoop_miss[of ws 0 rand Crab] h by simp
next
  assume h: "(\<forall>w\<in>set ws. 0 \<le> snd w) \<and> sum_list (map snd ws) < rand"
  have "\<forall>j<length ws. 0 + sum_list (map snd (take (Suc j) ws)) < rand"
  proof (intro allI impI)
    fix j
    have "sum_list (map snd (take (Suc j) ws)) \<le> sum_list (map snd ws)"
      using h prefix_le_total by blast
    then show "0 + sum_list (map snd (take (Suc j) ws)) < rand" using h by linarith
  qed
  then show "selectType rand ws = Crab"
    unfolding selectType_def by (rule selectLoop_miss)
qed

theorem selectType_cumulative_scan_witness:
  "(1::nat) < length [(Parrot, 2/5), (Barrel, 1/5), (Crab, 1/5::real)] \<and>
   (1/2::real) \<le> sum_list (map snd (take (Suc 1) [(Parrot, 2/5), (Barrel, 1/5), (Crab, 1/5::real)])) \<and>
   sum_list (map snd (take (Suc 0) [(Parrot, 2/5), (Barrel, 1/5), (Crab, 1/5::real)])) < 1/2 \<and>
   selectType (1/2) [(Parrot, 2/5), (Barrel, 1/5), (Crab, 1/5)] = Barrel \<and>
   list_all (\<lambda>w. 0 \<le> snd w) [(Parrot, 2/5), (Barrel, 1/5::real)] \<and>
   sum_list (map snd [(Parrot, 2/5), (Barrel, 1/5::real)]) < 9/10 \<and>
   selectType (9/10) [(Parrot, 2/5), (Barrel, 1/5)] = Crab"
  using selectType_cumulative_scan [of 1 "[(Parrot, 2/5), (Barrel, 1/5), (Crab, 1/5)]" "1/2"]
        selectType_cumulative_scan [of 0 "[(Parrot, 2/5), (Barrel, 1/5)]" "9/10"]
  by simp

text \<open>
  The fallback is not the last enumerated type: a draw of 0.95 over weights that sum
  to 0.92 and end with the treasure chest selects the crab.
\<close>

theorem selectType_fallback_counterexample:
  "selectType (19/20)
     [(Parrot, 2/5), (Barrel, 1/5), (Crab, 1/5), (Gap, 1/10), (MoonwalkCrab, 1/100),
      (TreasureChest, 1/100)] = Crab \<and>
   fst (last [(Parrot, 2/5), (Barrel, 1/5), (Crab, 1/5), (Gap, 1/10), (MoonwalkCrab, 1/100),
      (TreasureChest, 1/100::real)]) = TreasureChest \<and>
   sum_list (map snd [(Parrot, 2/5), (Barrel, 1/5), (Crab, 1/5), (Gap, 1/10),
      (MoonwalkCrab, 1/100), (TreasureChest, 1/100::real)]) < 19/20 \<and>
   selectType (19/20)
     [(Parrot, 2/5), (Barrel, 1/5), (Crab, 1/5), (Gap, 1/10), (MoonwalkCrab, 1/100),
      (TreasureChest, 1/100)] \<noteq>
   fst (last [(Parrot, 2/5), (Barrel, 1/5), (Crab, 1/5), (Gap, 1/10), (MoonwalkCrab, 1/100),
      (TreasureChest, 1/100::real)])"
  by (simp add: selectType_def)

section \<open>The coin magnet\<close>

lemma sqrt_900: "sqrt 900 = 30"
  by (rule real_sqrt_unique) simp_all

lemma sqrt_90000: "sqrt 90000 = 300"
  by (rule real_sqrt_unique) simp_all

text \<open>
  C6. With \<open>d\<close> the distance between the centres of player and coin and the range
  \<open>50 + coinMagnetRange\<close>: when \<open>20 < d < range\<close> the magnet moves the coin by
  3/100 of the vector from the coin's centre to the player's centre, which is a
  proper move; otherwise the magnet returns the coin's position unchanged and the
  frame moves the coin by the scroll speed only. In every case the frame subtracts
  the scroll speed from the horizontal position the magnet returned.
\<close>

theorem coin_magnet_band:
  "(20 < magnetDistance pl coin \<and> magnetDistance pl coin < 50 + coinMagnetRange (shipBoosts gs) \<longrightarrow>
      checkCoinMagnet gs pl coin =
        (x coin + 3 / 100 * (x pl + width pl / 2 - (x coin + width coin / 2)),
         y coin + 3 / 100 * (y pl + height pl / 2 - (y coin + height coin / 2))) \<and>
      checkCoinMagnet gs pl coin \<noteq> (x coin, y coin)) \<and>
   (\<not> (20 < magnetDistance pl coin \<and> magnetDistance pl coin < 50 + coinMagnetRange (shipBoosts gs)) \<longrightarrow>
      checkCoinMagnet gs pl coin = (x coin, y coin) \<and>
      moveCoin gs pl coin = coin\<lparr>x := x coin - gameSpeed gs\<rparr>) \<and>
   x (moveCoin gs pl coin) = fst (checkCoinMagnet gs pl coin) - gameSpeed gs \<and>
   y (moveCoin gs pl coin) = snd (checkCoinMagnet gs pl coin)"
proof -
  let ?dx = "x pl + width pl / 2 - (x coin + width coin / 2)"
  let ?dy = "y pl + height pl / 2 - (y coin + height coin / 2)"
  have nz: "?dx \<noteq> 0 \<or> ?dy \<noteq> 0" if "20 < magnetDistance pl coin"
  proof (rule ccontr)
    assume "\<not> (?dx \<noteq> 0 \<or> ?dy \<noteq> 0)"
    then have "magnetDistance pl coin = 0" by (simp add: magnetDistance_def)
    then show False using that by simp
  qed
  show ?thesis
    using nz by (auto simp: checkCoinMagnet_def moveCoin_def Let_def)
qed

theorem coin_magnet_band_witness:
  "magnetDistance initialPlayer \<lparr>x = 138, y = 308, width = 16, height = 16, collected = False\<rparr> = 30 \<and>
   checkCoinMagnet
     \<lparr>isPlaying = True, isPaused = False, score = 0, coins = 0, lives = 3, gameSpeed = 4,
      shipBoosts = \<lparr>speedMultiplier = 1, extraLives = 0, coinMagnetRange = 0, startingLives = 0\<rparr>,
      currentCatchphrase = [], levelSeed = 0\<rparr>
     initialPlayer \<lparr>x = 138, y = 308, width = 16, height = 16, collected = False\<rparr>
     = (1371 / 10, 308) \<and>
   magnetDistance initialPlayer \<lparr>x = 408, y = 308, width = 16, height = 16, collected = False\<rparr> = 300 \<and>
   moveCoin
     \<lparr>isPlaying = True, isPaused = False, score = 0, coins = 0, lives = 3, gameSpeed = 4,
      shipBoosts = \<lparr>speedMultiplier = 1, extraLives = 0, coinMagnetRange = 0, startingLives = 0\<rparr>,
      currentCatchphrase = [], levelSeed = 0\<rparr>
     initialPlayer \<lparr>x = 408, y = 308, width = 16, height = 16, collected = False\<rparr>
     = \<lparr>x = 404, y = 308, width = 16, height = 16, collected = False\<rparr>"
proof -
  have d1: "magnetDistance initialPlayer \<lparr>x = 138, y = 308, width = 16, height = 16, collected = False\<rparr> = 30"
    by (simp add: magnetDistance_def initialPlayer_def sqrt_900)
  have d2: "magnetDistance initialPlayer \<lparr>x = 408, y = 308, width = 16, height = 16, collected = False\<rparr> = 300"
    by (simp add: magnetDistance_def initialPlayer_def sqrt_90000)
  show ?thesis
    using d1 d2
      coin_magnet_band [of initialPlayer "\<lparr>x = 138, y = 308, width = 16, height = 16, collected = False\<rparr>"
        "\<lparr>isPlaying = True, isPaused = False, score = 0, coins = 0, lives = 3, gameSpeed = 4,
      shipBoosts = \<lparr>speedMultiplier = 1, extraLives = 0, coinMagnetRange = 0, startingLives = 0\<rparr>,
      currentCatchphrase = [], levelSeed = 0\<rparr>"]
      coin_magnet_band [of initialPlayer "\<lparr>x = 408, y = 308, width = 16, height = 16, collected = False\<rparr>"
        "\<lparr>isPlaying = True, isPaused = False, score = 0, coins = 0, lives = 3, gameSpeed = 4,
      shipBoosts = \<lparr>speedMultiplier = 1, extraLives = 0, coinMagnetRange = 0, startingLives = 0\<rparr>,
      currentCatchphrase = [], levelSeed = 0\<rparr>"]
    by (simp add: initialPlayer_def)
qed

section \<open>Buying a ship upgrade\<close>

lemma find_Some_index:
  "find P xs = Some u \<Longrightarrow> \<exists>i<length xs. xs ! i = u \<and> P u \<and> (\<forall>j<i. \<not> P (xs ! j))"
  by (auto simp: find_Some_iff)

lemma map_distinct_key_update:
  assumes "distinct (map f xs)" "i < length xs" "f (xs ! i) = k"
  shows "map (\<lambda>u. if f u = k then g u else u) xs = xs[i := g (xs ! i)]"
proof (rule nth_equalityI)
  show "length (map (\<lambda>u. if f u = k then g u else u) xs) = length (xs[i := g (xs ! i)])" by simp
next
  fix j assume j: "j < length (map (\<lambda>u. if f u = k then g u else u) xs)"
  then have jl: "j < length xs" by simp
  show "map (\<lambda>u. if f u = k then g u else u) xs ! j = xs[i := g (xs ! i)] ! j"
  proof (cases "j = i")
    case True
    then show ?thesis using assms jl by simp
  next
    case False
    have "f (xs ! j) \<noteq> k"
    proof
      assume "f (xs ! j) = k"
      then have "map f xs ! j = map f xs ! i" using assms jl by simp
      moreover have "j < length (map f xs)" "i < length (map f xs)" using jl assms(2) by simp_all
      ultimately have "j = i" using nth_eq_iff_index_eq[OF assms(1)] by blast
      then show False using False by simp
    qed
    then show ?thesis using jl False by simp
  qed
qed

lemma purchaseUpgrade_unknown_id:
  "find (\<lambda>u. su_id u = upgradeId) (shipUpgrades p) = None \<Longrightarrow> purchaseUpgrade upgradeId p = p"
  by (simp add: purchaseUpgrade_def)

lemma applyOp_upgrade_ids:
  "map su_id (shipUpgrades (applyOp op p)) = map su_id (shipUpgrades p)"
proof (cases op)
  case (PurchaseUpgrade upgradeId)
  have "map su_id (map (\<lambda>u. if su_id u = upgradeId
                               then u\<lparr>currentLevel := currentLevel u + 1\<rparr> else u) us) =
        map su_id us" for us
    by (induction us) simp_all
  then show ?thesis
    using PurchaseUpgrade by (simp add: purchaseUpgrade_def Let_def split: option.splits)
next
  case (PurchaseOutfit outfitId)
  then show ?thesis by (simp add: purchaseOutfit_def split: option.splits)
next
  case (SelectOutfit outfitId)
  then show ?thesis by (simp add: selectOutfit_def)
next
  case (GameLoopEnd gs)
  then show ?thesis by (simp add: gameLoop_progress_def)
next
  case (HandleGameOver gs pp)
  then show ?thesis by (simp add: handleGameOver_def updateChallengeProgress_def Let_def)
next
  case (Reload shuffled today)
  then show ?thesis by (simp add: loadProgress_def Let_def)
qed

lemma reachable_upgrade_ids_distinct:
  "distinct (map su_id (shipUpgrades (runOps ops (freshProgress shuffled today))))"
proof -
  have "map su_id (shipUpgrades (runOps ops p)) = map su_id (shipUpgrades p)" for p
    unfolding runOps_def by (induction ops arbitrary: p) (simp_all add: applyOp_upgrade_ids)
  then show ?thesis by (simp add: freshProgress_def initialUpgrades_def)
qed

text \<open>
  C7. In a profile whose upgrades have distinct ids, let \<open>u\<close> be the upgrade with the
  requested id. When \<open>u\<close> is at its maximum level, or the banked coins are fewer than
  \<open>cost u * (currentLevel u + 1)\<close>, the purchase returns the profile unchanged.
  Otherwise it subtracts exactly that cost, replaces \<open>u\<close> in its place by \<open>u\<close> with
  the level raised by one, and changes nothing else. If every level was at most its
  maximum before, it still is afterwards.
\<close>

theorem purchaseUpgrade_noop_or_buy:
  assumes dist: "distinct (map su_id (shipUpgrades p))"
    and found: "find (\<lambda>u. su_id u = upgradeId) (shipUpgrades p) = Some u"
  shows "(currentLevel u \<ge> maxLevel u \<or> totalCoins p < cost u * (currentLevel u + 1) \<longrightarrow>
            purchaseUpgrade upgradeId p = p) \<and>
         (\<not> (currentLevel u \<ge> maxLevel u \<or> totalCoins p < cost u * (currentLevel u + 1)) \<longrightarrow>
            (\<exists>i<length (shipUpgrades p). shipUpgrades p ! i = u \<and>
               purchaseUpgrade upgradeId p =
                 p\<lparr>totalCoins := totalCoins p - cost u * (currentLevel u + 1),
                   shipUpgrades := (shipUpgrades p)[i := u\<lparr>currentLevel := currentLevel u + 1\<rparr>]\<rparr>)) \<and>
         ((\<forall>v\<in>set (shipUpgrades p). currentLevel v \<le> maxLevel v) \<longrightarrow>
            (\<forall>v\<in>set (shipUpgrades (purchaseUpgrade upgradeId p)). currentLevel v \<le> maxLevel v))"
proof -
  obtain i where i: "i < length (shipUpgrades p)" "shipUpgrades p ! i = u" "su_id u = upgradeId"
    using find_Some_index[OF found] by blast
  have upd: "map (\<lambda>v. if su_id v = upgradeId then v\<lparr>currentLevel := currentLevel v + 1\<rparr> else v)
               (shipUpgrades p) = (shipUpgrades p)[i := u\<lparr>currentLevel := currentLevel u + 1\<rparr>]"
    using map_distinct_key_update[OF dist i(1), of upgradeId "\<lambda>v. v\<lparr>currentLevel := currentLevel v + 1\<rparr>"] i
    by simp
  have noop: "currentLevel u \<ge> maxLevel u \<or> totalCoins p < cost u * (currentLevel u + 1) \<Longrightarrow>
            purchaseUpgrade upgradeId p = p"
    using found by (auto simp: purchaseUpgrade_def Let_def)
  have buy: "\<not> (currentLevel u \<ge> maxLevel u \<or> totalCoins p < cost u * (currentLevel u + 1)) \<Longrightarrow>
      purchaseUpgrade upgradeId p =
                 p\<lparr>totalCoins := totalCoins p - cost u * (currentLevel u + 1),
                   shipUpgrades := (shipUpgrades p)[i := u\<lparr>currentLevel := currentLevel u + 1\<rparr>]\<rparr>"
    using found upd by (simp add: purchaseUpgrade_def Let_def)
  have inv: "\<forall>v\<in>set (shipUpgrades (purchaseUpgrade upgradeId p)). currentLevel v \<le> maxLevel v"
    if h: "\<forall>v\<in>set (shipUpgrades p). currentLevel v \<le> maxLevel v"
  proof (cases "currentLevel u \<ge> maxLevel u \<or> totalCoins p < cost u * (currentLevel u + 1)")
    case True
    then show ?thesis using noop h by simp
  next
    case False
    have "\<forall>v\<in>set ((shipUpgrades p)[i := u\<lparr>currentLevel := currentLevel u + 1\<rparr>]). currentLevel v \<le> maxLevel v"
    proof
      fix v assume "v \<in> set ((shipUpgrades p)[i := u\<lparr>currentLevel := currentLevel u + 1\<rparr>])"
      then have "v = u\<lparr>currentLevel := currentLevel u + 1\<rparr> \<or> v \<in> set (shipUpgrades p)"
        using set_update_subset_insert by fastforce
      then show "currentLevel v \<le> maxLevel v" using False h by auto
    qed
    then show ?thesis using buy[OF False] by simp
  qed
  show ?thesis using noop buy i inv by blast
qed

theorem purchaseUpgrade_noop_or_buy_witness:
  "distinct (map su_id (shipUpgrades ((freshProgress [] [])\<lparr>totalCoins := 60\<rparr>))) \<and>
   find (\<lambda>u. su_id u = ''hull'') (shipUpgrades ((freshProgress [] [])\<lparr>totalCoins := 60\<rparr>)) =
     Some (hd initialUpgrades) \<and>
   \<not> (currentLevel (hd initialUpgrades) \<ge> maxLevel (hd initialUpgrades) \<or>
      totalCoins ((freshProgress [] [])\<lparr>totalCoins := 60\<rparr>) <
        cost (hd initialUpgrades) * (currentLevel (hd initialUpgrades) + 1)) \<and>
   list_all (\<lambda>v. currentLevel v \<le> maxLevel v)
     (shipUpgrades ((freshProgress [] [])\<lparr>totalCoins := 60\<rparr>)) \<and>
   totalCoins (purchaseUpgrade ''hull'' ((freshProgress [] [])\<lparr>totalCoins := 60\<rparr>)) = 10 \<and>
   list_all (\<lambda>v. currentLevel v \<le> maxLevel v)
     (shipUpgrades (purchaseUpgrade ''hull'' ((freshProgress [] [])\<lparr>totalCoins := 60\<rparr>))) \<and>
   totalCoins (freshProgress [] []) <
     cost (hd initialUpgrades) * (currentLevel (hd initialUpgrades) + 1) \<and>
   purchaseUpgrade ''hull'' (freshProgress [] []) = freshProgress [] []"
proof -
  let ?p = "(freshProgress [] [])\<lparr>totalCoins := 60\<rparr>"
  let ?u = "hd initialUpgrades"
  have ups: "shipUpgrades ?p = initialUpgrades" "shipUpgrades (freshProgress [] []) = initialUpgrades"
    by (simp_all add: freshProgress_def)
  have d: "distinct (map su_id initialUpgrades)"
    by (simp add: initialUpgrades_def)
  have f: "find (\<lambda>u. su_id u = ''hull'') initialUpgrades = Some ?u"
    by (simp add: initialUpgrades_def)
  have u: "currentLevel ?u = 0" "maxLevel ?u = 3" "cost ?u = 50"
    by (simp_all add: initialUpgrades_def)
  have c: "totalCoins ?p = 60" "totalCoins (freshProgress [] []) = 0"
    by (simp_all add: freshProgress_def)
  have inv: "\<forall>v\<in>set initialUpgrades. currentLevel v \<le> maxLevel v"
    by (simp add: initialUpgrades_def)
  have buy: "\<not> (currentLevel ?u \<ge> maxLevel ?u \<or> totalCoins ?p < cost ?u * (currentLevel ?u + 1))"
    by (simp add: u c)
  have poor: "totalCoins (freshProgress [] []) < cost ?u * (currentLevel ?u + 1)"
    by (simp add: u c)
  note rich = purchaseUpgrade_noop_or_buy [of ?p "''hull''" ?u, unfolded ups, OF d f]
  note none = purchaseUpgrade_noop_or_buy [of "freshProgress [] []" "''hull''" ?u, unfolded ups, OF d f]
  from rich buy obtain i where
    "purchaseUpgrade ''hull'' ?p =
       ?p\<lparr>totalCoins := totalCoins ?p - cost ?u * (currentLevel ?u + 1),
           shipUpgrades := initialUpgrades[i := ?u\<lparr>currentLevel := currentLevel ?u + 1\<rparr>]\<rparr>"
    by blast
  then have paid: "totalCoins (purchaseUpgrade ''hull'' ?p) = 10"
    by (simp add: u c)
  have kept: "\<forall>v\<in>set (shipUpgrades (purchaseUpgrade ''hull'' ?p)). currentLevel v \<le> maxLevel v"
    using rich inv by blast
  have same: "purchaseUpgrade ''hull'' (freshProgress [] []) = freshProgress [] []"
    using none poor by blast
  show ?thesis
    unfolding ups list_all_iff using d f buy inv paid kept poor same by blast
qed

section \<open>Challenges of type enemies\<close>

lemma generateDailyChallenges_fresh:
  "c \<in> set (generateDailyChallenges shuffled) \<Longrightarrow> progress c = 0 \<and> \<not> completed c"
  by (auto simp: generateDailyChallenges_def)

lemma updateChallengeProgress_enemies:
  "t \<noteq> Enemies \<Longrightarrow> enemiesIdle p \<Longrightarrow> enemiesIdle (updateChallengeProgress t amount p)"
  by (auto simp: enemiesIdle_def updateChallengeProgress_def Let_def)

lemma handleGameOver_enemies:
  "enemiesIdle p \<Longrightarrow> enemiesIdle (handleGameOver gs pp p)"
proof -
  assume a: "enemiesIdle p"
  let ?p3 = "updateChallengeProgress Survival (score gs div 10)
              (updateChallengeProgress Coins (coins gs) (updateChallengeProgress Score (score gs) p))"
  have "enemiesIdle ?p3"
    using a by (intro updateChallengeProgress_enemies) simp_all
  then show ?thesis
    by (simp add: handleGameOver_def Let_def enemiesIdle_def)
qed

lemma applyOp_enemies:
  assumes idle: "enemiesIdle p"
  shows "enemiesIdle (applyOp op p)"
proof (cases op)
  case (PurchaseUpgrade upgradeId)
  then show ?thesis
    using idle by (auto simp: enemiesIdle_def purchaseUpgrade_def Let_def split: option.splits)
next
  case (PurchaseOutfit outfitId)
  then show ?thesis
    using idle by (auto simp: enemiesIdle_def purchaseOutfit_def split: option.splits)
next
  case (SelectOutfit outfitId)
  then show ?thesis
    using idle by (simp add: enemiesIdle_def selectOutfit_def)
next
  case (GameLoopEnd gs)
  then show ?thesis
    using idle by (simp add: enemiesIdle_def gameLoop_progress_def)
next
  case (HandleGameOver gs pp)
  then show ?thesis
    using idle by (simp add: handleGameOver_enemies)
next
  case (Reload shuffled today)
  then show ?thesis
    using idle
    by (auto simp: enemiesIdle_def loadProgress_def Let_def dest: generateDailyChallenges_fresh)
qed

lemma runOps_enemies: "enemiesIdle p \<Longrightarrow> enemiesIdle (runOps ops p)"
  unfolding runOps_def by (induction ops arbitrary: p) (simp_all add: applyOp_enemies)

lemma fresh_enemies: "enemiesIdle (freshProgress shuffled today)"
  by (auto simp: enemiesIdle_def freshProgress_def dest: generateDailyChallenges_fresh)

lemma challengeRewards_skip_enemies:
  "challengeRewards gs cs = challengeRewards gs (filter (\<lambda>c. ctype c \<noteq> Enemies) cs)"
proof -
  have "filter (\<lambda>c. \<not> completed c \<and>
                      ((ctype c = Score \<and> score gs \<ge> target c) \<or>
                       (ctype c = Coins \<and> coins gs \<ge> target c) \<or>
                       (ctype c = Survival \<and> score gs div 10 \<ge> target c))) (filter (\<lambda>c. ctype c \<noteq> Enemies) cs)
      = filter (\<lambda>c. \<not> completed c \<and>
                      ((ctype c = Score \<and> score gs \<ge> target c) \<or>
                       (ctype c = Coins \<and> coins gs \<ge> target c) \<or>
                       (ctype c = Survival \<and> score gs div 10 \<ge> target c))) cs"
    by (induction cs) auto
  then show ?thesis by (simp add: challengeRewards_def Let_def)
qed

lemma applyOp_enemies_count: "totalEnemiesDefeated (applyOp op p) = totalEnemiesDefeated p"
  by (cases op)
     (simp_all add: purchaseUpgrade_def purchaseOutfit_def selectOutfit_def gameLoop_progress_def
        handleGameOver_def updateChallengeProgress_def loadProgress_def Let_def
        split: option.splits)

lemma runOps_enemies_count: "totalEnemiesDefeated (runOps ops p) = totalEnemiesDefeated p"
  unfolding runOps_def by (induction ops arbitrary: p) (simp_all add: applyOp_enemies_count)

text \<open>
  C9. Start from a fresh profile and apply any sequence of the operations that write
  the profile. The counter of defeated enemies is still 0, and every daily challenge
  of type enemies still has progress 0 and is not completed. No operation changes the
  counter of defeated enemies of any profile, and the reward sum of the run-end
  handler never includes a challenge of type enemies.
\<close>

theorem enemies_challenge_never_advances:
  "totalEnemiesDefeated (runOps ops (freshProgress shuffled today)) = 0 \<and>
   (\<forall>c\<in>set (dailyChallenges (runOps ops (freshProgress shuffled today))).
      ctype c = Enemies \<longrightarrow> progress c = 0 \<and> \<not> completed c) \<and>
   totalEnemiesDefeated (runOps ops p) = totalEnemiesDefeated p \<and>
   challengeRewards gs cs = challengeRewards gs (filter (\<lambda>c. ctype c \<noteq> Enemies) cs)"
  using runOps_enemies[OF fresh_enemies, of ops shuffled today]
    runOps_enemies_count[of ops p] challengeRewards_skip_enemies[of gs cs]
  unfolding enemiesIdle_def by blast

theorem enemies_challenge_never_advances_witness:
  "(\<exists>c\<in>set (dailyChallenges (runOps
        [HandleGameOver
           \<lparr>isPlaying = True, isPaused = False, score = 1200, coins = 7, lives = 1,
            gameSpeed = 4,
            shipBoosts = \<lparr>speedMultiplier = 1, extraLives = 0, coinMagnetRange = 0,
                        startingLives = 0\<rparr>,
            currentCatchphrase = [], levelSeed = 0\<rparr>
           (freshProgress (rev challengePool) ''Mon''),
         PurchaseUpgrade ''hull'']
        (freshProgress (rev challengePool) ''Mon''))).
      ctype c = Enemies \<and> progress c = 0 \<and> \<not> completed c) \<and>
   map progress (dailyChallenges (runOps
        [HandleGameOver
           \<lparr>isPlaying = True, isPaused = False, score = 1200, coins = 7, lives = 1,
            gameSpeed = 4,
            shipBoosts = \<lparr>speedMultiplier = 1, extraLives = 0, coinMagnetRange = 0,
                        startingLives = 0\<rparr>,
            currentCatchphrase = [], levelSeed = 0\<rparr>
           (freshProgress (rev challengePool) ''Mon''),
         PurchaseUpgrade ''hull'']
        (freshProgress (rev challengePool) ''Mon''))) = [7, 0, 120]"
  using enemies_challenge_never_advances
    [of "[HandleGameOver
           \<lparr>isPlaying = True, isPaused = False, score = 1200, coins = 7, lives = 1,
            gameSpeed = 4,
            shipBoosts = \<lparr>speedMultiplier = 1, extraLives = 0, coinMagnetRange = 0,
                        startingLives = 0\<rparr>,
            currentCatchphrase = [], levelSeed = 0\<rparr>
           (freshProgress (rev challengePool) ''Mon''),
         PurchaseUpgrade ''hull'']" "rev challengePool" "''Mon''"]
  by (simp add: runOps_def freshProgress_def challengePool_def generateDailyChallenges_def
       handleGameOver_def updateChallengeProgress_def Let_def purchaseUpgrade_def initialUpgrades_def
       challengeRewards_def)

section \<open>The pattern generator leaves no trace\<close>

lemma adjustWeight_other: "b \<noteq> a \<Longrightarrow> heap (adjustWeight seed a key st) b = heap st b"
  by (simp add: adjustWeight_def Let_def split: option.splits)

lemma adjustWeight_next: "nextAddr (adjustWeight seed a key st) = nextAddr st"
  by (simp add: adjustWeight_def Let_def split: option.splits)

lemma adjustWeight_cong:
  "heap st a = heap st' a' \<Longrightarrow>
   heap (adjustWeight seed a key st) a = heap (adjustWeight seed a' key st') a'"
  by (simp add: adjustWeight_def Let_def split: option.splits)

lemma fold_adjust_other:
  "b \<noteq> a \<Longrightarrow> heap (fold (adjustWeight seed a) keys st) b = heap st b"
  by (induction keys arbitrary: st) (simp_all add: adjustWeight_other)

lemma fold_adjust_next: "nextAddr (fold (adjustWeight seed a) keys st) = nextAddr st"
  by (induction keys arbitrary: st) (simp_all add: adjustWeight_next)

lemma fold_adjust_cong:
  "heap st a = heap st' a' \<Longrightarrow>
   heap (fold (adjustWeight seed a) keys st) a = heap (fold (adjustWeight seed a') keys st') a'"
proof (induction keys arbitrary: st st')
  case Nil
  then show ?case by simp
next
  case (Cons k keys)
  show ?case
    using Cons.IH[OF adjustWeight_cong[OF Cons.prems, of seed k]] by simp
qed

lemma generate_frame:
  "a < nextAddr st \<Longrightarrow> heap (snd (generateAILevelPattern seed st)) a = heap st a"
  by (simp add: generateAILevelPattern_def Let_def fold_adjust_other)

lemma generate_next: "nextAddr st \<le> nextAddr (snd (generateAILevelPattern seed st))"
  by (simp add: generateAILevelPattern_def Let_def fold_adjust_next)

lemma jsRem_bound: "0 \<le> jsRem seed 6 \<Longrightarrow> nat (jsRem seed 6) < 6"
  by (auto simp: jsRem_def sgn_if split: if_splits)

lemma base_in_patterns:
  "0 \<le> jsRem seed (int (length LEVEL_PATTERNS)) \<Longrightarrow>
   LEVEL_PATTERNS ! nat (jsRem seed (int (length LEVEL_PATTERNS))) \<in> set LEVEL_PATTERNS"
proof -
  assume a: "0 \<le> jsRem seed (int (length LEVEL_PATTERNS))"
  have len: "length LEVEL_PATTERNS = 6" by (simp add: LEVEL_PATTERNS_def)
  have "nat (jsRem seed (int (length LEVEL_PATTERNS))) < length LEVEL_PATTERNS"
    using a jsRem_bound[of seed] len by simp
  then show ?thesis by (rule nth_mem)
qed

lemma observe_depends_on_base:
  assumes "patternsAllocated st" "patternsAllocated st'"
    and same: "\<forall>p\<in>set LEVEL_PATTERNS. heap st' (weights p) = heap st (weights p)"
  shows "observe (generateAILevelPattern seed st') = observe (generateAILevelPattern seed st)"
proof (cases "jsRem seed (int (length LEVEL_PATTERNS)) < 0")
  case True
  then show ?thesis by (simp add: observe_def generateAILevelPattern_def Let_def)
next
  case False
  let ?b = "LEVEL_PATTERNS ! nat (jsRem seed (int (length LEVEL_PATTERNS)))"
  have mem: "?b \<in> set LEVEL_PATTERNS" using False base_in_patterns by simp
  have eq: "heap st' (weights ?b) = heap st (weights ?b)" using same mem by blast
  let ?s1 = "\<lambda>s. s\<lparr>heap := (heap s)(nextAddr s := heap s (weights ?b)), nextAddr := nextAddr s + 1\<rparr>"
  have start: "heap (?s1 st') (nextAddr st') = heap (?s1 st) (nextAddr st)"
    using eq by simp
  have "heap (fold (adjustWeight seed (nextAddr st')) (map fst (heap (?s1 st') (nextAddr st'))) (?s1 st')) (nextAddr st')
      = heap (fold (adjustWeight seed (nextAddr st)) (map fst (heap (?s1 st') (nextAddr st'))) (?s1 st)) (nextAddr st)"
    using start by (rule fold_adjust_cong)
  then show ?thesis
    using False eq by (simp add: observe_def generateAILevelPattern_def Let_def)
qed

lemma generate_allocated:
  "patternsAllocated st \<Longrightarrow> patternsAllocated (snd (generateAILevelPattern seed st))"
  unfolding patternsAllocated_def using generate_next[of st seed] by fastforce

text \<open>
  C5. A call of the generator writes to no object that existed before the call. In a
  store that holds the literal patterns, what a call returns (the label and the
  entries of the returned weights object, or the error) is the same after any earlier
  call as before it, so repeated calls with one seed agree; the HUD label and the
  spawner, called for game states with the same level seed and score, see the same
  pattern.
\<close>

theorem generateAILevelPattern_pure:
  "(\<forall>a<nextAddr st. heap (snd (generateAILevelPattern seed st)) a = heap st a) \<and>
   ((\<forall>p\<in>set LEVEL_PATTERNS. weights p < nextAddr st) \<longrightarrow>
      observe (generateAILevelPattern seed (snd (generateAILevelPattern seed' st))) =
        observe (generateAILevelPattern seed st) \<and>
      (levelSeed g1 = levelSeed g2 \<and> score g1 = score g2 \<longrightarrow>
         observe (spawnerPattern g2 (snd (displayPattern g1 st))) = observe (displayPattern g1 st)))"
proof (intro conjI impI allI)
  fix a assume "a < nextAddr st"
  then show "heap (snd (generateAILevelPattern seed st)) a = heap st a" by (rule generate_frame)
next
  assume al: "\<forall>p\<in>set LEVEL_PATTERNS. weights p < nextAddr st"
  then have pa: "patternsAllocated st" by (simp add: patternsAllocated_def)
  have key: "observe (generateAILevelPattern s (snd (generateAILevelPattern s' st))) =
        observe (generateAILevelPattern s st)" for s s'
  proof (rule observe_depends_on_base[OF pa generate_allocated[OF pa]])
    show "\<forall>p\<in>set LEVEL_PATTERNS.
       heap (snd (generateAILevelPattern s' st)) (weights p) = heap st (weights p)"
      using al generate_frame by blast
  qed
  show "observe (generateAILevelPattern seed (snd (generateAILevelPattern seed' st))) =
        observe (generateAILevelPattern seed st)" by (rule key)
  assume "levelSeed g1 = levelSeed g2 \<and> score g1 = score g2"
  then show "observe (spawnerPattern g2 (snd (displayPattern g1 st))) = observe (displayPattern g1 st)"
    using key by (simp add: spawnerPattern_def displayPattern_def)
qed

theorem generateAILevelPattern_pure_witness:
  "list_all (\<lambda>p. weights p < nextAddr initialStore) LEVEL_PATTERNS \<and>
   observe (generateAILevelPattern 7 (snd (generateAILevelPattern 3 initialStore))) =
     observe (generateAILevelPattern 7 initialStore)"
  using generateAILevelPattern_pure [of initialStore 7 3]
  by (simp add: LEVEL_PATTERNS_def initialStore_def)

section \<open>The two ends of a run\<close>

text \<open>
  Whatever else happens in the frame, a frame created in a render with at most one
  life stops the run and writes the profile.
\<close>

lemma gameLoop_game_over_check:
  assumes "lives gs \<le> 1"
  shows "\<not> isPlaying (gameLoop_gameState gs pl obs projs prev)"
    and "gameLoop_progress gs p =
           p\<lparr>gamesPlayed := gamesPlayed p + 1,
             bestScore := max (bestScore p) (totalCoins p + coins gs),
             totalCoins := totalCoins p + coins gs\<rparr>"
  using assms by (simp_all add: gameLoop_gameState_def gameLoop_progress_def Let_def)

text \<open>
  C1. The frame that is created in the render where lives have reached 1 ends the run
  by itself: the game-over check of the game loop sets \<open>isPlaying\<close> to false and
  writes the profile in that frame, without the timer callback. Here the run has 7
  coins and a score of 120, and the profile is a fresh one.
\<close>

theorem gameLoop_ends_run_before_timer:
  "isPlaying \<lparr>isPlaying = True, isPaused = False, score = 120, coins = 7, lives = 1,
       gameSpeed = 4,
       shipBoosts = \<lparr>speedMultiplier = 1, extraLives = 0, coinMagnetRange = 0,
                     startingLives = 0\<rparr>,
       currentCatchphrase = [], levelSeed = 0\<rparr> \<and>
   isPlaying (gameLoop_gameState
      \<lparr>isPlaying = True, isPaused = False, score = 120, coins = 7, lives = 1,
       gameSpeed = 4,
       shipBoosts = \<lparr>speedMultiplier = 1, extraLives = 0, coinMagnetRange = 0,
                     startingLives = 0\<rparr>,
       currentCatchphrase = [], levelSeed = 0\<rparr>
      initialPlayer [] []
      \<lparr>isPlaying = True, isPaused = False, score = 120, coins = 7, lives = 1,
       gameSpeed = 4,
       shipBoosts = \<lparr>speedMultiplier = 1, extraLives = 0, coinMagnetRange = 0,
                     startingLives = 0\<rparr>,
       currentCatchphrase = [], levelSeed = 0\<rparr>) = False \<and>
   gameLoop_progress
      \<lparr>isPlaying = True, isPaused = False, score = 120, coins = 7, lives = 1,
       gameSpeed = 4,
       shipBoosts = \<lparr>speedMultiplier = 1, extraLives = 0, coinMagnetRange = 0,
                     startingLives = 0\<rparr>,
       currentCatchphrase = [], levelSeed = 0\<rparr>
      (freshProgress (rev challengePool) ''Mon'') =
     (freshProgress (rev challengePool) ''Mon'')
       \<lparr>gamesPlayed := 1, bestScore := 7, totalCoins := 7\<rparr> \<and>
   gameLoop_progress
      \<lparr>isPlaying = True, isPaused = False, score = 120, coins = 7, lives = 1,
       gameSpeed = 4,
       shipBoosts = \<lparr>speedMultiplier = 1, extraLives = 0, coinMagnetRange = 0,
                     startingLives = 0\<rparr>,
       currentCatchphrase = [], levelSeed = 0\<rparr>
      (freshProgress (rev challengePool) ''Mon'') \<noteq> freshProgress (rev challengePool) ''Mon''"
proof -
  let ?g = "\<lparr>isPlaying = True, isPaused = False, score = 120, coins = 7, lives = 1,
       gameSpeed = 4,
       shipBoosts = \<lparr>speedMultiplier = 1, extraLives = 0, coinMagnetRange = 0,
                     startingLives = 0\<rparr>,
       currentCatchphrase = [], levelSeed = 0\<rparr>"
  let ?p = "freshProgress (rev challengePool) ''Mon''"
  have a: "isPlaying (gameLoop_gameState ?g initialPlayer [] [] ?g) = False"
    by (simp add: gameLoop_gameState_def gameLoop_collisions_def Let_def)
  have b: "gameLoop_progress ?g ?p = ?p\<lparr>gamesPlayed := 1, bestScore := 7, totalCoins := 7\<rparr>"
    by (simp add: gameLoop_progress_def freshProgress_def)
  have "gamesPlayed (gameLoop_progress ?g ?p) \<noteq> gamesPlayed ?p"
    unfolding b by (simp add: freshProgress_def)
  then have c: "gameLoop_progress ?g ?p \<noteq> ?p" by auto
  show ?thesis using a b c by simp
qed

text \<open>
  The reward of the run-end handler asks for the target to be met by the run alone: a
  score challenge at 900 of 1000 is completed by a run of 200 and pays nothing.
\<close>

lemma reward_needs_target_in_one_run:
  "handleGameOver
     \<lparr>isPlaying = True, isPaused = False, score = 200, coins = 0, lives = 1,
      gameSpeed = 4,
      shipBoosts = \<lparr>speedMultiplier = 1, extraLives = 0, coinMagnetRange = 0,
                    startingLives = 0\<rparr>,
      currentCatchphrase = [], levelSeed = 0\<rparr>
     ((freshProgress [] ''Mon'')\<lparr>dailyChallenges :=
         [\<lparr>dc_id = ''score-1000'', dc_name = ''Distance Runner'',
           dc_description = ''Reach a score of 1000'', target = 1000, progress = 900,
           reward = 50, completed = False, ctype = Score\<rparr>]\<rparr>)
     ((freshProgress [] ''Mon'')\<lparr>dailyChallenges :=
         [\<lparr>dc_id = ''score-1000'', dc_name = ''Distance Runner'',
           dc_description = ''Reach a score of 1000'', target = 1000, progress = 900,
           reward = 50, completed = False, ctype = Score\<rparr>]\<rparr>) =
   (freshProgress [] ''Mon'')\<lparr>dailyChallenges :=
         [\<lparr>dc_id = ''score-1000'', dc_name = ''Distance Runner'',
           dc_description = ''Reach a score of 1000'', target = 1000, progress = 1100,
           reward = 50, completed = True, ctype = Score\<rparr>],
      totalCoins := 0, gamesPlayed := 1, bestScore := 200, totalSurvivalTime := 20\<rparr>"
  by (simp add: handleGameOver_def updateChallengeProgress_def challengeRewards_def
      freshProgress_def Let_def)

text \<open>
  C4. The profile is written at the end of a run by the game-over check of the game
  loop and again by the run-end handler. For a run of score 1200 with 7 coins on a
  fresh profile whose survival challenge (reward 40) the run completes: the check
  counts one game, banks 7 coins, records a best score of 7 and no survival time; the
  handler applied after it brings the games played to 2 and the banked coins to 54.
\<close>

theorem run_end_updates_profile_twice:
  "gamesPlayed (gameLoop_progress
      \<lparr>isPlaying = True, isPaused = False, score = 1200, coins = 7, lives = 1,
       gameSpeed = 4,
       shipBoosts = \<lparr>speedMultiplier = 1, extraLives = 0, coinMagnetRange = 0,
                     startingLives = 0\<rparr>,
       currentCatchphrase = [], levelSeed = 0\<rparr>
      (freshProgress (rev challengePool) ''Mon'')) = 1 \<and>
   bestScore (gameLoop_progress
      \<lparr>isPlaying = True, isPaused = False, score = 1200, coins = 7, lives = 1,
       gameSpeed = 4,
       shipBoosts = \<lparr>speedMultiplier = 1, extraLives = 0, coinMagnetRange = 0,
                     startingLives = 0\<rparr>,
       currentCatchphrase = [], levelSeed = 0\<rparr>
      (freshProgress (rev challengePool) ''Mon'')) = 7 \<and>
   totalSurvivalTime (gameLoop_progress
      \<lparr>isPlaying = True, isPaused = False, score = 1200, coins = 7, lives = 1,
       gameSpeed = 4,
       shipBoosts = \<lparr>speedMultiplier = 1, extraLives = 0, coinMagnetRange = 0,
                     startingLives = 0\<rparr>,
       currentCatchphrase = [], levelSeed = 0\<rparr>
      (freshProgress (rev challengePool) ''Mon'')) = 0 \<and>
   gamesPlayed (handleGameOver
      \<lparr>isPlaying = True, isPaused = False, score = 1200, coins = 7, lives = 1,
       gameSpeed = 4,
       shipBoosts = \<lparr>speedMultiplier = 1, extraLives = 0, coinMagnetRange = 0,
                     startingLives = 0\<rparr>,
       currentCatchphrase = [], levelSeed = 0\<rparr>
      (freshProgress (rev challengePool) ''Mon'')
      (gameLoop_progress
        \<lparr>isPlaying = True, isPaused = False, score = 1200, coins = 7, lives = 1,
         gameSpeed = 4,
         shipBoosts = \<lparr>speedMultiplier = 1, extraLives = 0, coinMagnetRange = 0,
                       startingLives = 0\<rparr>,
         currentCatchphrase = [], levelSeed = 0\<rparr>
        (freshProgress (rev challengePool) ''Mon''))) = 2 \<and>
   totalCoins (handleGameOver
      \<lparr>isPlaying = True, isPaused = False, score = 1200, coins = 7, lives = 1,
       gameSpeed = 4,
       shipBoosts = \<lparr>speedMultiplier = 1, extraLives = 0, coinMagnetRange = 0,
                     startingLives = 0\<rparr>,
       currentCatchphrase = [], levelSeed = 0\<rparr>
      (freshProgress (rev challengePool) ''Mon'')
      (gameLoop_progress
        \<lparr>isPlaying = True, isPaused = False, score = 1200, coins = 7, lives = 1,
         gameSpeed = 4,
         shipBoosts = \<lparr>speedMultiplier = 1, extraLives = 0, coinMagnetRange = 0,
                       startingLives = 0\<rparr>,
         currentCatchphrase = [], levelSeed = 0\<rparr>
        (freshProgress (rev challengePool) ''Mon''))) = 54 \<and>
   challengeRewards
      \<lparr>isPlaying = True, isPaused = False, score = 1200, coins = 7, lives = 1,
       gameSpeed = 4,
       shipBoosts = \<lparr>speedMultiplier = 1, extraLives = 0, coinMagnetRange = 0,
                     startingLives = 0\<rparr>,
       currentCatchphrase = [], levelSeed = 0\<rparr>
      (dailyChallenges (freshProgress (rev challengePool) ''Mon'')) = 40"
proof -
  let ?g = "\<lparr>isPlaying = True, isPaused = False, score = 1200, coins = 7, lives = 1,
       gameSpeed = 4,
       shipBoosts = \<lparr>speedMultiplier = 1, extraLives = 0, coinMagnetRange = 0,
                     startingLives = 0\<rparr>,
       currentCatchphrase = [], levelSeed = 0\<rparr>"
  let ?p = "freshProgress (rev challengePool) ''Mon''"
  have b: "gameLoop_progress ?g ?p = ?p\<lparr>gamesPlayed := 1, bestScore := 7, totalCoins := 7\<rparr>"
    by (simp add: gameLoop_progress_def freshProgress_def)
  have r: "challengeRewards ?g (dailyChallenges ?p) = 40"
    by (simp add: challengeRewards_def freshProgress_def generateDailyChallenges_def
        challengePool_def Let_def)
  have f: "gamesPlayed ?p = 0" "bestScore ?p = 0" "totalCoins ?p = 0" "totalSurvivalTime ?p = 0"
    by (simp_all add: freshProgress_def)
  have h: "gamesPlayed (handleGameOver ?g ?p q) = gamesPlayed q + 1"
    "totalCoins (handleGameOver ?g ?p q) = totalCoins q + 7 + challengeRewards ?g (dailyChallenges ?p)" for q
    by (simp_all add: handleGameOver_def updateChallengeProgress_def Let_def)
  show ?thesis
    unfolding h r b by (simp add: f)
qed

end
